theory Spec2Isabelle
  imports Complex_Main "HOL-Library.Word" "HOL-Library.Sublist"
begin

section \<open>Server monitoring agent: data model\<close>

text \<open>
  The monitored program is the Go package \<open>server\<close>: \<open>MonitorServers\<close> polls every
  server once, \<open>shouldSendNotification\<close> remembers the last status of each server,
  \<open>formatUptime\<close> turns an elapsed-time string into an "online since" display string.

  Go's \<open>float64\<close> values are only copied from a decoded response to the database
  and compared with the literal 0; no floating-point arithmetic is performed on them,
  so they are modelled as \<open>real\<close>. Go's \<open>int\<close> is taken as 64 bits wide.
  Strings are byte strings.
\<close>

type_synonym float64 = real

text \<open>\<open>sql.NullString\<close>: a string and a validity flag.\<close>

record NullString =
  String :: string
  Valid :: bool

text \<open>
  Modelled from the spec: the declaration of \<open>models.Server\<close> is not among the source
  files. These are the fields that \<open>MonitorServers\<close> reads, the Host of the
  specification: identity, monitoring configuration and the online flag of the
  last-known snapshot.
\<close>

record Server =
  ID :: int
  Name :: string
  Monitoring :: bool
  MonitoringURL :: NullString
  Online :: bool

text \<open>
  Modelled from the spec: the response types of package \<open>models\<close> are not among the
  source files. Of each decoded response only the part that the fetcher reads is kept:
  the CPU total, the memory percent, the percent of each filesystem, the GPU
  utilisation, the value of each composite sensor.

  The outcome of \<open>client.Get\<close> followed by the status check and the JSON decoding of
  the body: \<open>GetError\<close> is a transport error, \<open>GetResponse code d\<close> a response with
  status \<open>code\<close> whose body decodes to \<open>d\<close> (\<open>None\<close>: the decoder returns an error).
\<close>

datatype 'a http_result = GetError | GetResponse int "'a option"

text \<open>
  The body of the uptime response: \<open>raw\<close> are the bytes read, \<open>json_value\<close> is what
  \<open>json.Unmarshal\<close> into \<open>models.UptimeResponse\<close> gives (\<open>None\<close>: an error,
  \<open>Some v\<close>: the field \<open>Value\<close>).
\<close>

record uptime_body =
  raw :: string
  json_value :: "string option"

text \<open>\<open>UptimeResponse code b\<close>: \<open>b = None\<close> when \<open>io.ReadAll\<close> fails.\<close>

datatype uptime_result = UptimeError | UptimeResponse int "uptime_body option"

text \<open>
  What the HTTP client and the clock answer while one server is probed: one result per
  endpoint (each endpoint is requested at most once per server and cycle), the reading
  of \<open>time.Now()\<close> in nanoseconds since the Unix epoch and the offset (seconds east
  of UTC) of the local time zone at a given Unix second.
\<close>

record client =
  cpu_resp :: "float64 http_result"
  uptime_resp :: uptime_result
  mem_resp :: "float64 http_result"
  fs_resp :: "float64 list http_result"
  gpu_resp :: "float64 http_result"
  temp_resp :: "float64 list http_result"
  now :: int
  zone :: "int \<Rightarrow> int"

text \<open>
  Everything the program does to the outside is recorded in order: the URL of each GET,
  the arguments of each \<open>updateServerStatus\<close> and \<open>addServerHistoryEntry\<close> call
  (the latter passes its numbers on formatted with two decimals) and each message handed
  to \<open>SendNotifications\<close>. Errors of the database and of the notification sender are
  logged and dropped by the program, so they do not appear.
\<close>

datatype event =
    HttpGet string
  | UpdateStatus int bool float64 float64 float64 float64 float64 string
  | AddHistory int bool float64 float64 float64 float64 float64
  | SendNotifications string

text \<open>The package-level \<open>notificationState.lastStatus\<close> and the record of effects.\<close>

record world =
  lastStatus :: "int \<rightharpoonup> bool"
  trace :: "event list"

definition emit :: "event \<Rightarrow> world \<Rightarrow> world" where
  "emit e w = w\<lparr>trace := trace w @ [e]\<rparr>"

section \<open>Library functions the program calls\<close>

subsection \<open>Package strings\<close>

definition TrimSuffix :: "string \<Rightarrow> string \<Rightarrow> string" where
  "TrimSuffix s suf = (if suffix suf s then take (length s - length suf) s else s)"

text \<open>\<open>strings.Trim(s, cutset)\<close> for a cutset of one-byte characters.\<close>

definition Trim :: "string \<Rightarrow> string \<Rightarrow> string" where
  "Trim s cutset =
     rev (dropWhile (\<lambda>c. c \<in> set cutset) (rev (dropWhile (\<lambda>c. c \<in> set cutset) s)))"

text \<open>
  \<open>strings.ReplaceAll\<close>: the non-overlapping occurrences of \<open>old\<close> are replaced from
  left to right. (For an empty \<open>old\<close>, which the program never passes, \<open>new\<close> is
  inserted before every character and at the end.)
\<close>

function ReplaceAll :: "string \<Rightarrow> string \<Rightarrow> string \<Rightarrow> string" where
  "ReplaceAll s [] new = new @ concat (map (\<lambda>c. c # new) s)"
| "ReplaceAll [] (a # old) new = []"
| "ReplaceAll (c # cs) (a # old) new =
     (if prefix (a # old) (c # cs)
      then new @ ReplaceAll (drop (length (a # old)) (c # cs)) (a # old) new
      else c # ReplaceAll cs (a # old) new)"
  by pat_completeness auto
termination
  by (relation "measure (\<lambda>(s, old, new). length s)") auto

text \<open>
  \<open>strings.Split(s, sep)\<close> for a non-empty separator: the pieces between the
  non-overlapping occurrences of \<open>sep\<close>, found from left to right; \<open>cur\<close> is the piece
  being read. (An empty separator splits into single characters.)
\<close>

function splitFrom :: "string \<Rightarrow> string \<Rightarrow> string \<Rightarrow> string list" where
  "splitFrom sep cur [] = [cur]"
| "splitFrom sep cur (c # cs) =
     (if sep \<noteq> [] \<and> prefix sep (c # cs)
      then cur # splitFrom sep [] (drop (length sep) (c # cs))
      else splitFrom sep (cur @ [c]) cs)"
  by pat_completeness auto
termination
  by (relation "measure (\<lambda>(sep, cur, s). length s)") auto

definition Split :: "string \<Rightarrow> string \<Rightarrow> string list" where
  "Split s sep = (if sep = [] then map (\<lambda>c. [c]) s else splitFrom sep [] s)"

subsection \<open>Package unicode/utf8\<close>

text \<open>
  \<open>utf8.DecodeRuneInString\<close>: the first character of a byte string and the number of
  bytes of its encoding. A byte below 128 is the character itself; the lead bytes C2 to
  F4 start an encoding of two to four bytes, whose second byte lies in a range that
  depends on the lead byte and whose further bytes lie between 80 and BF; everything
  else (also an encoding cut off by the end of the string) is the error character
  U+FFFD with one byte consumed.
\<close>

definition RuneError :: int where
  "RuneError = 0xFFFD"

definition DecodeRuneInString :: "string \<Rightarrow> int \<times> nat" where
  "DecodeRuneInString s =
     (case map of_char (take 4 s) of
        [] \<Rightarrow> (RuneError, 0)
      | s0 # t \<Rightarrow>
          if s0 < 0x80 then (s0, 1)
          else if s0 < 0xC2 \<or> 0xF4 < s0 then (RuneError, 1)
          else
            let sz = (if s0 < 0xE0 then 2 else if s0 < 0xF0 then 3 else 4);
                lo = (if s0 = 0xE0 then 0xA0 else if s0 = 0xF0 then 0x90 else 0x80);
                hi = (if s0 = 0xED then 0x9F else if s0 = 0xF4 then 0x8F else 0xBF)
            in if Suc (length t) < sz then (RuneError, 1)
               else if t ! 0 < lo \<or> hi < t ! 0 then (RuneError, 1)
               else if sz \<le> 2 then ((s0 mod 32) * 64 + t ! 0 mod 64, 2)
               else if t ! 1 < 0x80 \<or> 0xBF < t ! 1 then (RuneError, 1)
               else if sz \<le> 3
                 then ((s0 mod 16) * 4096 + (t ! 0 mod 64) * 64 + t ! 1 mod 64, 3)
               else if t ! 2 < 0x80 \<or> 0xBF < t ! 2 then (RuneError, 1)
               else ((s0 mod 8) * 262144 + (t ! 0 mod 64) * 4096
                       + (t ! 1 mod 64) * 64 + t ! 2 mod 64, 4))"

subsection \<open>Package fmt: Sscanf\<close>

text \<open>
  \<open>fmt.Sscanf\<close> for the formats of this program, which consist of the verb \<open>%d\<close>,
  single spaces and literal ASCII characters. The result is the list of the integers
  scanned, or \<open>None\<close> where Sscanf returns an error. The scanner reads the input
  character by character (\<open>DecodeRuneInString\<close>); white space is the set
  White_Space of Unicode, as in the table \<open>space\<close> of package fmt. A sign, a digit
  and a literal of the format are ASCII characters, and a character below 128 is read
  exactly when the next byte is this character, so these are compared as bytes. (The
  scanner's limit of \<open>2 ^ 30\<close> characters per input is left out.)
\<close>

definition space :: "(int \<times> int) list" where
  "space = [(0x0009, 0x000d), (0x0020, 0x0020), (0x0085, 0x0085), (0x00a0, 0x00a0),
            (0x1680, 0x1680), (0x2000, 0x200a), (0x2028, 0x2029), (0x202f, 0x202f),
            (0x205f, 0x205f), (0x3000, 0x3000)]"

definition isSpace :: "int \<Rightarrow> bool" where
  "isSpace r = (r < 65536 \<and> list_ex (\<lambda>(lo, hi). lo \<le> r \<and> r \<le> hi) space)"

definition isDigit :: "char \<Rightarrow> bool" where
  "isDigit c = (c \<in> set ''0123456789'')"

definition digitVal :: "char \<Rightarrow> int" where
  "digitVal c = int (of_char c) - 48"

definition decVal :: "string \<Rightarrow> int" where
  "decVal ds = foldl (\<lambda>a c. 10 * a + digitVal c) 0 ds"

text \<open>
  \<open>SkipSpace\<close>: white space is skipped, a newline is an error. (\<open>drop (n - 1) cs\<close>
  is the input after the \<open>n\<close> bytes of its first character.)
\<close>

fun SkipSpace :: "string \<Rightarrow> string option" where
  "SkipSpace [] = Some []"
| "SkipSpace (c # cs) =
     (let (r, n) = DecodeRuneInString (c # cs) in
      if r = 0x0A then None
      else if isSpace r then SkipSpace (drop (n - 1) cs)
      else Some (c # cs))"

text \<open>The white space other than newlines at the start of the input is dropped.\<close>

fun skipBlanks :: "string \<Rightarrow> string" where
  "skipBlanks [] = []"
| "skipBlanks (c # cs) =
     (let (r, n) = DecodeRuneInString (c # cs) in
      if isSpace r \<and> r \<noteq> 0x0A then skipBlanks (drop (n - 1) cs)
      else c # cs)"

text \<open>
  \<open>strconv.ParseInt(tok, 10, 64)\<close>: an optional sign and decimal digits; any other
  character is a syntax error, a value outside the signed 64-bit range a range error.
\<close>

definition ParseInt :: "string \<Rightarrow> int option" where
  "ParseInt tok =
     (case tok of
        [] \<Rightarrow> None
      | c # cs \<Rightarrow>
          let neg = (c = CHR ''-'');
              ds = (if c = CHR ''+'' \<or> c = CHR ''-'' then cs else c # cs)
          in if ds = [] \<or> \<not> list_all isDigit ds then None
             else if \<not> neg \<and> decVal ds \<ge> 2 ^ 63 then None
             else if neg \<and> decVal ds > 2 ^ 63 then None
             else Some (if neg then - decVal ds else decVal ds))"

text \<open>
  \<open>scanInt\<close> for the verb \<open>%d\<close>: skip white space, fail at the end of the input,
  accept a sign, then read the longest run of decimal digits and parse the token.
\<close>

definition scanInt :: "string \<Rightarrow> (int \<times> string) option" where
  "scanInt inp =
     (case SkipSpace inp of
        None \<Rightarrow> None
      | Some s1 \<Rightarrow>
          (case s1 of
             [] \<Rightarrow> None
           | c # cs \<Rightarrow>
               let sgn = (if c = CHR ''+'' \<or> c = CHR ''-'' then [c] else []);
                   s2 = (if c = CHR ''+'' \<or> c = CHR ''-'' then cs else c # cs);
                   tok = takeWhile isDigit s2;
                   rest = dropWhile isDigit s2
               in if tok = [] then None
                  else (case ParseInt (sgn @ tok) of
                          None \<Rightarrow> None
                        | Some i \<Rightarrow> Some (i, rest))))"

text \<open>
  The format is read from left to right. \<open>%d\<close> scans an integer; a space of the format
  matches one or more white-space characters of the input that are not newlines, or the
  end of the input; any other character must be the next character of the input.
\<close>

fun doScanf :: "string \<Rightarrow> string \<Rightarrow> int list \<Rightarrow> int list option" where
  "doScanf [] inp acc = Some acc"
| "doScanf (f # fs) inp acc =
     (if f = CHR ''%'' then
        (case fs of
           [] \<Rightarrow> None
         | v # fs' \<Rightarrow>
             if v = CHR ''d'' then
               (case scanInt inp of
                  None \<Rightarrow> None
                | Some (i, rest) \<Rightarrow> doScanf fs' rest (acc @ [i]))
             else None)
      else if f = CHR '' '' then
        (case inp of
           [] \<Rightarrow> doScanf fs [] acc
         | c # cs \<Rightarrow>
             let (r, n) = DecodeRuneInString (c # cs) in
             if \<not> isSpace r \<or> r = 0x0A then None
             else doScanf fs (skipBlanks (drop (n - 1) cs)) acc)
      else
        (case inp of
           [] \<Rightarrow> None
         | c # cs \<Rightarrow> if c = f then doScanf fs cs acc else None))"

definition Sscanf :: "string \<Rightarrow> string \<Rightarrow> int list option" where
  "Sscanf str format = doScanf format str []"

subsection \<open>Package time\<close>

text \<open>
  A \<open>time.Duration\<close> is a signed 64-bit count of nanoseconds; its arithmetic wraps
  around. An instant is the number of nanoseconds since the Unix epoch; \<open>Add\<close> moves
  it by the signed value of the duration.
\<close>

type_synonym Duration = "64 word"

definition Second :: Duration where
  "Second = 1000000000"

definition Minute :: Duration where
  "Minute = 60 * Second"

definition Hour :: Duration where
  "Hour = 60 * Minute"

definition Add :: "int \<Rightarrow> Duration \<Rightarrow> int" where
  "Add t d = t + sint d"

text \<open>The date (year, month, day) of a day counted from 1970-01-01.\<close>

definition civilFromDays :: "int \<Rightarrow> int \<times> int \<times> int" where
  "civilFromDays z0 =
     (let z = z0 + 719468;
          era = z div 146097;
          doe = z mod 146097;
          yoe = (doe - doe div 1460 + doe div 36524 - doe div 146096) div 365;
          doy = doe - (365 * yoe + yoe div 4 - yoe div 100);
          mp = (5 * doy + 2) div 153;
          d = doy - (153 * mp + 2) div 5 + 1;
          m = (if mp < 10 then mp + 3 else mp - 9);
          y = yoe + era * 400 + (if m \<le> 2 then 1 else 0)
      in (y, m, d))"

definition digitChar :: "nat \<Rightarrow> char" where
  "digitChar n = char_of (48 + n)"

function itoa :: "nat \<Rightarrow> string" where
  "itoa n = (if n < 10 then [digitChar n] else itoa (n div 10) @ [digitChar (n mod 10)])"
  by pat_completeness auto
termination
  by (relation "measure (\<lambda>n. n)") auto

definition pad2 :: "nat \<Rightarrow> string" where
  "pad2 n = (if n < 10 then CHR ''0'' # itoa n else itoa n)"

text \<open>
  \<open>t.Format("2.1 15:04")\<close> in the local time zone: day of the month and month without
  padding, hour (24 hours) and minute with two digits.
\<close>

definition Format :: "(int \<Rightarrow> int) \<Rightarrow> int \<Rightarrow> string" where
  "Format tz t =
     (let unix = t div 1000000000;
          loc = unix + tz unix;
          (y, m, d) = civilFromDays (loc div 86400);
          sod = loc mod 86400
      in itoa (nat d) @ ''.'' @ itoa (nat m) @ '' '' @
         pad2 (nat (sod div 3600)) @ '':'' @ pad2 (nat ((sod mod 3600) div 60)))"

section \<open>The uptime normalizer\<close>

text \<open>
  Lines 363 to 380 of \<open>formatUptime\<close>: the time of day is scanned, the duration is
  computed in 64-bit arithmetic and subtracted from the current time.
\<close>

definition formatSince :: "int \<Rightarrow> (int \<Rightarrow> int) \<Rightarrow> string \<Rightarrow> int \<Rightarrow> string \<Rightarrow> string" where
  "formatSince nw tz uptimeStr days timeStr =
     (case Sscanf timeStr ''%d:%d:%d'' of
        Some [hours, minutes, seconds] \<Rightarrow>
          let duration = word_of_int days * 24 * Hour
                       + word_of_int hours * Hour
                       + word_of_int minutes * Minute
                       + word_of_int seconds * Second;
              startTime = Add nw (- duration)
          in Format tz startTime
      | _ \<Rightarrow> uptimeStr)"

text \<open>
  \<open>formatUptime\<close>; \<open>nw\<close> is the reading of \<open>time.Now()\<close> and \<open>tz\<close> the local
  time zone.
\<close>

definition formatUptime :: "int \<Rightarrow> (int \<Rightarrow> int) \<Rightarrow> string \<Rightarrow> string" where
  "formatUptime nw tz uptimeStr =
     (let parts = Split uptimeStr '', '' in
      if length parts = 2 then
        (case Sscanf (parts ! 0) ''%d days'' of
           Some [days] \<Rightarrow> formatSince nw tz uptimeStr days (parts ! 1)
         | _ \<Rightarrow>
           (case Sscanf (parts ! 0) ''%d day'' of
              Some [days] \<Rightarrow> formatSince nw tz uptimeStr days (parts ! 1)
            | _ \<Rightarrow> uptimeStr))
      else if length parts = 1 then formatSince nw tz uptimeStr 0 (parts ! 0)
      else uptimeStr)"

section \<open>Metric fetchers\<close>

text \<open>
  Each fetcher issues one GET below the base URL and returns the flag and the value of
  the source; the messages printed to the standard output are left out.
\<close>

definition fetchCPUUsage :: "client \<Rightarrow> string \<Rightarrow> world \<Rightarrow> (bool \<times> float64) \<times> world" where
  "fetchCPUUsage c baseURL w =
     (let w1 = emit (HttpGet (baseURL @ ''/api/4/cpu'')) w in
      case cpu_resp c of
        GetError \<Rightarrow> ((False, 0), w1)
      | GetResponse code cpuData \<Rightarrow>
          if code \<noteq> 200 then ((False, 0), w1)
          else (case cpuData of
                  None \<Rightarrow> ((False, 0), w1)
                | Some cpuTotal \<Rightarrow> ((True, cpuTotal), w1)))"

definition fetchMemoryUsage :: "client \<Rightarrow> string \<Rightarrow> world \<Rightarrow> (bool \<times> float64) \<times> world" where
  "fetchMemoryUsage c baseURL w =
     (let w1 = emit (HttpGet (baseURL @ ''/api/4/mem'')) w in
      case mem_resp c of
        GetError \<Rightarrow> ((False, 0), w1)
      | GetResponse code memData \<Rightarrow>
          if code \<noteq> 200 then ((False, 0), w1)
          else (case memData of
                  None \<Rightarrow> ((False, 0), w1)
                | Some percent \<Rightarrow> ((True, percent), w1)))"

text \<open>The decoded filesystem response is the list of the \<open>Percent\<close> fields.\<close>

definition fetchDiskUsage :: "client \<Rightarrow> string \<Rightarrow> world \<Rightarrow> (bool \<times> float64) \<times> world" where
  "fetchDiskUsage c baseURL w =
     (let w1 = emit (HttpGet (baseURL @ ''/api/4/fs'')) w in
      case fs_resp c of
        GetError \<Rightarrow> ((False, 0), w1)
      | GetResponse code fsData \<Rightarrow>
          if code \<noteq> 200 then ((False, 0), w1)
          else (case fsData of
                  None \<Rightarrow> ((False, 0), w1)
                | Some fs \<Rightarrow>
                    if length fs > 0 then ((True, hd fs), w1)
                    else ((True, 0), w1)))"

definition fetchUptime :: "client \<Rightarrow> string \<Rightarrow> world \<Rightarrow> string \<times> world" where
  "fetchUptime c baseURL w =
     (let w1 = emit (HttpGet (baseURL @ ''/api/4/uptime'')) w in
      case uptime_resp c of
        UptimeError \<Rightarrow> ([], w1)
      | UptimeResponse code body \<Rightarrow>
          if code \<noteq> 200 then ([], w1)
          else (case body of
                  None \<Rightarrow> ([], w1)
                | Some b \<Rightarrow>
                    let uptimeStr = Trim (raw b) [CHR 0x22] in
                    (case json_value b of
                       None \<Rightarrow> (formatUptime (now c) (zone c) uptimeStr, w1)
                     | Some v \<Rightarrow>
                         if v \<noteq> [] then (formatUptime (now c) (zone c) v, w1)
                         else (formatUptime (now c) (zone c) uptimeStr, w1))))"

definition fetchGPUUsage :: "client \<Rightarrow> string \<Rightarrow> world \<Rightarrow> (bool \<times> float64) \<times> world" where
  "fetchGPUUsage c baseURL w =
     (let w1 = emit (HttpGet (baseURL @ ''/api/4/gpu'')) w in
      case gpu_resp c of
        GetError \<Rightarrow> ((True, 0), w1)
      | GetResponse code gpuData \<Rightarrow>
          if code \<noteq> 200 then ((True, 0), w1)
          else (case gpuData of
                  None \<Rightarrow> ((True, 0), w1)
                | Some proc \<Rightarrow> ((True, proc), w1)))"

text \<open>The decoded sensor response is the list of the values under \<open>Composite\<close>.\<close>

definition fetchTemperature :: "client \<Rightarrow> string \<Rightarrow> world \<Rightarrow> (bool \<times> float64) \<times> world" where
  "fetchTemperature c baseURL w =
     (let w1 = emit (HttpGet (baseURL @ ''/api/4/sensors/label/value/Composite'')) w in
      case temp_resp c of
        GetError \<Rightarrow> ((True, 0), w1)
      | GetResponse code tempData \<Rightarrow>
          if code \<noteq> 200 then ((True, 0), w1)
          else (case tempData of
                  None \<Rightarrow> ((True, 0), w1)
                | Some composite \<Rightarrow>
                    if length composite > 0 then ((True, hd composite), w1)
                    else ((True, 0), w1)))"

section \<open>Transition detector, notification and persistence\<close>

definition shouldSendNotification :: "int \<Rightarrow> bool \<Rightarrow> world \<Rightarrow> bool \<times> world" where
  "shouldSendNotification serverID online w =
     (case lastStatus w serverID of
        None \<Rightarrow> (True, w\<lparr>lastStatus := (lastStatus w)(serverID \<mapsto> online)\<rparr>)
      | Some prev \<Rightarrow>
          if prev \<noteq> online
          then (True, w\<lparr>lastStatus := (lastStatus w)(serverID \<mapsto> online)\<rparr>)
          else (False, w))"

definition renderMessage :: "string \<Rightarrow> string \<Rightarrow> bool \<Rightarrow> string" where
  "renderMessage template name online =
     (let status = (if online then ''online'' else ''offline'');
          message = ReplaceAll template ''!name'' name
      in ReplaceAll message ''!status'' status)"

definition sendStatusChangeNotification :: "Server \<Rightarrow> bool \<Rightarrow> string \<Rightarrow> world \<Rightarrow> world" where
  "sendStatusChangeNotification server online template w =
     emit (SendNotifications (renderMessage template (Name server) online)) w"

definition updateServerStatus ::
  "int \<Rightarrow> bool \<Rightarrow> float64 \<Rightarrow> float64 \<Rightarrow> float64 \<Rightarrow> float64 \<Rightarrow> float64 \<Rightarrow> string \<Rightarrow> world \<Rightarrow> world" where
  "updateServerStatus serverID online cpuUsage ramUsage diskUsage gpuUsage temp uptime w =
     emit (UpdateStatus serverID online cpuUsage ramUsage diskUsage gpuUsage temp uptime) w"

definition addServerHistoryEntry ::
  "int \<Rightarrow> bool \<Rightarrow> float64 \<Rightarrow> float64 \<Rightarrow> float64 \<Rightarrow> float64 \<Rightarrow> float64 \<Rightarrow> world \<Rightarrow> world" where
  "addServerHistoryEntry serverID online cpuUsage ramUsage diskUsage gpuUsage temp w =
     emit (AddHistory serverID online cpuUsage ramUsage diskUsage gpuUsage temp) w"

section \<open>The monitoring cycle\<close>

text \<open>
  The block that the loop body runs when a required fetch has failed (lines 50 to 54,
  65 to 69 and 78 to 82, where \<open>online\<close> is false): status update, transition check
  with notification, history entry.
\<close>

definition reportOffline :: "Server \<Rightarrow> string \<Rightarrow> world \<Rightarrow> world" where
  "reportOffline server template w =
     (let w1 = updateServerStatus (ID server) False 0 0 0 0 0 [] w;
          (notify, w2) = shouldSendNotification (ID server) False w1;
          w3 = (if notify then sendStatusChangeNotification server False template w2 else w2)
      in addServerHistoryEntry (ID server) False 0 0 0 0 0 w3)"

text \<open>The body of the loop over the servers.\<close>

definition monitorServer :: "string \<Rightarrow> client \<Rightarrow> Server \<Rightarrow> world \<Rightarrow> world" where
  "monitorServer template c server w =
     (if \<not> Monitoring server \<or> \<not> Valid (MonitoringURL server) then w
      else
        let baseURL = TrimSuffix (String (MonitoringURL server)) ''/'';
            ((online, cpuUsage), w1) = fetchCPUUsage c baseURL w
        in if \<not> online then reportOffline server template w1
           else
             let (uptimeStr, w2) = fetchUptime c baseURL w1;
                 ((memOnline, ramUsage), w3) = fetchMemoryUsage c baseURL w2
             in if \<not> memOnline then reportOffline server template w3
                else
                  let ((diskOnline, diskUsage), w4) = fetchDiskUsage c baseURL w3
                  in if \<not> diskOnline then reportOffline server template w4
                     else
                       let ((gpuOk, gpuUsage), w5) = fetchGPUUsage c baseURL w4;
                           ((tempOk, temp), w6) = fetchTemperature c baseURL w5;
                           (notify, w7) =
                             (if online \<noteq> Online server
                              then shouldSendNotification (ID server) online w6
                              else (False, w6));
                           w8 = (if notify
                                 then sendStatusChangeNotification server online template w7
                                 else w7);
                           w9 = updateServerStatus (ID server) online cpuUsage ramUsage
                                  diskUsage gpuUsage temp uptimeStr w8
                       in addServerHistoryEntry (ID server) online cpuUsage ramUsage
                            diskUsage gpuUsage temp w9)"

text \<open>
  The loop; \<open>net i\<close> is what the client and the clock answer while the server at
  position \<open>i\<close> of the list is probed.
\<close>

fun monitorLoop :: "string \<Rightarrow> (nat \<Rightarrow> client) \<Rightarrow> nat \<Rightarrow> Server list \<Rightarrow> world \<Rightarrow> world" where
  "monitorLoop template net i [] w = w"
| "monitorLoop template net i (server # servers) w =
     monitorLoop template net (Suc i) servers (monitorServer template (net i) server w)"

text \<open>
  \<open>MonitorServers\<close>; \<open>db\<close> is the result of the query for the notification template
  (\<open>None\<close>: the query returns an error).
\<close>

definition MonitorServers :: "string option \<Rightarrow> (nat \<Rightarrow> client) \<Rightarrow> Server list \<Rightarrow> world \<Rightarrow> world" where
  "MonitorServers db net servers w =
     (let notificationTemplate =
            (case db of
               None \<Rightarrow> ''The server !name is now !status!''
             | Some t \<Rightarrow> if t = [] then ''The server !name is now !status!'' else t)
      in monitorLoop notificationTemplate net 0 servers w)"

section \<open>Vocabulary of the properties\<close>

text \<open>The loop body skips a server unless this holds (line 35).\<close>

definition monitored :: "Server \<Rightarrow> bool" where
  "monitored s = (Monitoring s \<and> Valid (MonitoringURL s))"

text \<open>
  A persisted value with the online flag off has all five numbers 0 and, for a status
  update, the empty uptime string.
\<close>

definition offlineZeroed :: "event \<Rightarrow> bool" where
  "offlineZeroed e =
     (case e of
        UpdateStatus i on cpu ram disk gpu temp up \<Rightarrow>
          on \<or> (cpu = 0 \<and> ram = 0 \<and> disk = 0 \<and> gpu = 0 \<and> temp = 0 \<and> up = [])
      | AddHistory i on cpu ram disk gpu temp \<Rightarrow>
          on \<or> (cpu = 0 \<and> ram = 0 \<and> disk = 0 \<and> gpu = 0 \<and> temp = 0)
      | _ \<Rightarrow> True)"

definition isUpdateFor :: "int \<Rightarrow> event \<Rightarrow> bool" where
  "isUpdateFor i e =
     (case e of UpdateStatus j on cpu ram disk gpu temp up \<Rightarrow> j = i | _ \<Rightarrow> False)"

definition isHistoryFor :: "int \<Rightarrow> event \<Rightarrow> bool" where
  "isHistoryFor i e =
     (case e of AddHistory j on cpu ram disk gpu temp \<Rightarrow> j = i | _ \<Rightarrow> False)"

text \<open>A non-empty string of decimal digits.\<close>

definition isDigits :: "string \<Rightarrow> bool" where
  "isDigits ds = (ds \<noteq> [] \<and> list_all isDigit ds)"

definition isNotification :: "event \<Rightarrow> bool" where
  "isNotification e = (case e of SendNotifications m \<Rightarrow> True | _ \<Rightarrow> False)"

text \<open>
  Example inputs: a server whose persisted snapshot says online, a client that answers
  every request of the required metrics (CPU 42, memory 55, an empty or a one-entry
  filesystem list) while the GPU request fails, a client whose CPU request fails, a
  client whose filesystem request fails, the time zone UTC, and the state of a process
  that has just started.
\<close>

definition utc :: "int \<Rightarrow> int" where
  "utc u = 0"

definition webServer :: Server where
  "webServer = \<lparr>ID = 1, Name = ''web'', Monitoring = True,
                 MonitoringURL = \<lparr>String = ''http://h/'', Valid = True\<rparr>, Online = True\<rparr>"

definition upClient :: "float64 list \<Rightarrow> client" where
  "upClient fs =
     \<lparr>cpu_resp = GetResponse 200 (Some 42),
      uptime_resp = UptimeResponse 200 (Some \<lparr>raw = ''0:05:10'', json_value = None\<rparr>),
      mem_resp = GetResponse 200 (Some 55),
      fs_resp = GetResponse 200 (Some fs),
      gpu_resp = GetError,
      temp_resp = GetResponse 200 (Some []),
      now = 1751391876000000000,
      zone = utc\<rparr>"

definition downClient :: client where
  "downClient = (upClient [61])\<lparr>cpu_resp := GetResponse 503 None\<rparr>"

definition diskDownClient :: client where
  "diskDownClient = (upClient [61])\<lparr>fs_resp := GetResponse 500 None\<rparr>"

definition sameClient :: "client \<Rightarrow> nat \<Rightarrow> client" where
  "sameClient c i = c"

definition firstDown :: "nat \<Rightarrow> client" where
  "firstDown i = (if i = 0 then downClient else upClient [61])"

definition freshWorld :: world where
  "freshWorld = \<lparr>lastStatus = Map.empty, trace = []\<rparr>"

section \<open>Effects of the single operations\<close>

lemma trace_emit [simp]: "trace (emit e w) = trace w @ [e]"
  by (simp add: emit_def)

lemma lastStatus_emit [simp]: "lastStatus (emit e w) = lastStatus w"
  by (simp add: emit_def)

lemma fetchCPUUsage_snd [simp]:
  "snd (fetchCPUUsage c b w) = emit (HttpGet (b @ ''/api/4/cpu'')) w"
  by (simp add: fetchCPUUsage_def Let_def split: http_result.splits option.splits)

lemma fetchUptime_snd [simp]:
  "snd (fetchUptime c b w) = emit (HttpGet (b @ ''/api/4/uptime'')) w"
  by (simp add: fetchUptime_def Let_def split: uptime_result.splits option.splits)

lemma fetchMemoryUsage_snd [simp]:
  "snd (fetchMemoryUsage c b w) = emit (HttpGet (b @ ''/api/4/mem'')) w"
  by (simp add: fetchMemoryUsage_def Let_def split: http_result.splits option.splits)

lemma fetchDiskUsage_snd [simp]:
  "snd (fetchDiskUsage c b w) = emit (HttpGet (b @ ''/api/4/fs'')) w"
  by (simp add: fetchDiskUsage_def Let_def split: http_result.splits option.splits)

lemma fetchGPUUsage_snd [simp]:
  "snd (fetchGPUUsage c b w) = emit (HttpGet (b @ ''/api/4/gpu'')) w"
  by (simp add: fetchGPUUsage_def Let_def split: http_result.splits option.splits)

lemma fetchTemperature_snd [simp]:
  "snd (fetchTemperature c b w) =
     emit (HttpGet (b @ ''/api/4/sensors/label/value/Composite'')) w"
  by (simp add: fetchTemperature_def Let_def split: http_result.splits option.splits)

text \<open>What a fetcher returns depends on the response alone.\<close>

lemma fetchCPUUsage_fst:
  "fst (fetchCPUUsage c b w) =
     (case cpu_resp c of
        GetError \<Rightarrow> (False, 0)
      | GetResponse code d \<Rightarrow>
          if code \<noteq> 200 then (False, 0)
          else (case d of None \<Rightarrow> (False, 0) | Some v \<Rightarrow> (True, v)))"
  by (simp add: fetchCPUUsage_def Let_def split: http_result.splits option.splits)

lemma fetchMemoryUsage_fst:
  "fst (fetchMemoryUsage c b w) =
     (case mem_resp c of
        GetError \<Rightarrow> (False, 0)
      | GetResponse code d \<Rightarrow>
          if code \<noteq> 200 then (False, 0)
          else (case d of None \<Rightarrow> (False, 0) | Some v \<Rightarrow> (True, v)))"
  by (simp add: fetchMemoryUsage_def Let_def split: http_result.splits option.splits)

lemma fetchDiskUsage_fst:
  "fst (fetchDiskUsage c b w) =
     (case fs_resp c of
        GetError \<Rightarrow> (False, 0)
      | GetResponse code d \<Rightarrow>
          if code \<noteq> 200 then (False, 0)
          else (case d of
                  None \<Rightarrow> (False, 0)
                | Some fs \<Rightarrow> (True, case fs of [] \<Rightarrow> 0 | v # vs \<Rightarrow> v)))"
  by (simp add: fetchDiskUsage_def Let_def
           split: http_result.splits option.splits list.splits)

lemma fetchGPUUsage_fst:
  "fst (fetchGPUUsage c b w) =
     (True, case gpu_resp c of
              GetError \<Rightarrow> 0
            | GetResponse code d \<Rightarrow>
                if code \<noteq> 200 then 0 else (case d of None \<Rightarrow> 0 | Some v \<Rightarrow> v))"
  by (simp add: fetchGPUUsage_def Let_def split: http_result.splits option.splits)

lemma fetchTemperature_fst:
  "fst (fetchTemperature c b w) =
     (True, case temp_resp c of
              GetError \<Rightarrow> 0
            | GetResponse code d \<Rightarrow>
                if code \<noteq> 200 then 0
                else (case d of None \<Rightarrow> 0 | Some [] \<Rightarrow> 0 | Some (v # vs) \<Rightarrow> v))"
  by (simp add: fetchTemperature_def Let_def
           split: http_result.splits option.splits list.splits)

lemmas fetch_fst = fetchCPUUsage_fst fetchMemoryUsage_fst fetchDiskUsage_fst
  fetchGPUUsage_fst fetchTemperature_fst

lemma fetch_fst_emit [simp]:
  "fst (fetchCPUUsage c b (emit e w)) = fst (fetchCPUUsage c b w)"
  "fst (fetchMemoryUsage c b (emit e w)) = fst (fetchMemoryUsage c b w)"
  "fst (fetchDiskUsage c b (emit e w)) = fst (fetchDiskUsage c b w)"
  "fst (fetchGPUUsage c b (emit e w)) = fst (fetchGPUUsage c b w)"
  "fst (fetchTemperature c b (emit e w)) = fst (fetchTemperature c b w)"
  by (simp_all add: fetch_fst)

lemma fetchUptime_fst_emit [simp]:
  "fst (fetchUptime c b (emit e w)) = fst (fetchUptime c b w)"
  by (simp add: fetchUptime_def Let_def split: uptime_result.splits option.splits)

lemmas op_defs = updateServerStatus_def addServerHistoryEntry_def
  sendStatusChangeNotification_def

lemma trace_shouldSend [simp]: "trace (snd (shouldSendNotification i b w)) = trace w"
  by (simp add: shouldSendNotification_def split: option.splits)

lemma lastStatus_shouldSend [simp]:
  "lastStatus (snd (shouldSendNotification i b w)) = (lastStatus w)(i \<mapsto> b)"
  by (auto simp: shouldSendNotification_def fun_upd_idem split: option.splits)

lemma fst_shouldSend:
  "fst (shouldSendNotification i b w) = (lastStatus w i \<noteq> Some b)"
  by (auto simp: shouldSendNotification_def split: option.splits)

lemma trace_reportOffline:
  "trace (reportOffline s t w) =
     trace w @ [UpdateStatus (ID s) False 0 0 0 0 0 []]
       @ (if lastStatus w (ID s) \<noteq> Some False
          then [SendNotifications (renderMessage t (Name s) False)] else [])
       @ [AddHistory (ID s) False 0 0 0 0 0]"
  by (simp add: reportOffline_def op_defs split_beta fst_shouldSend Let_def)

lemma lastStatus_reportOffline:
  "lastStatus (reportOffline s t w) = (lastStatus w)(ID s \<mapsto> False)"
  by (simp add: reportOffline_def op_defs split_beta Let_def)

section \<open>The transition detector\<close>

text \<open>
  Claim C4. \<open>shouldSendNotification\<close> answers true exactly when the server has no
  recorded status or the recorded status differs from the one passed, and afterwards
  the recorded status of that server is the one passed (the other servers and the
  record of effects are untouched). Hence a first call answers true whatever the
  status, a second call with the same status answers false, and a call with the
  flipped status answers true again.
\<close>

theorem shouldSendNotification_transition:
  "fst (shouldSendNotification sid b w)
     = (case lastStatus w sid of None \<Rightarrow> True | Some prev \<Rightarrow> prev \<noteq> b)
   \<and> lastStatus (snd (shouldSendNotification sid b w)) = (lastStatus w)(sid \<mapsto> b)
   \<and> trace (snd (shouldSendNotification sid b w)) = trace w
   \<and> (lastStatus w sid = None \<longrightarrow> fst (shouldSendNotification sid b w))
   \<and> \<not> fst (shouldSendNotification sid b (snd (shouldSendNotification sid b w)))
   \<and> fst (shouldSendNotification sid (\<not> b) (snd (shouldSendNotification sid b w)))"
  by (auto simp: shouldSendNotification_def fun_upd_idem split: option.splits)

theorem shouldSendNotification_transition_witness:
  "lastStatus \<lparr>lastStatus = Map.empty, trace = []\<rparr> 7 = None
   \<and> fst (shouldSendNotification 7 False \<lparr>lastStatus = Map.empty, trace = []\<rparr>)
   \<and> lastStatus (snd (shouldSendNotification 7 False \<lparr>lastStatus = Map.empty, trace = []\<rparr>)) 7
       = Some False
   \<and> \<not> fst (shouldSendNotification 7 False
             (snd (shouldSendNotification 7 False \<lparr>lastStatus = Map.empty, trace = []\<rparr>)))
   \<and> fst (shouldSendNotification 7 True
           (snd (shouldSendNotification 7 False \<lparr>lastStatus = Map.empty, trace = []\<rparr>)))"
  using shouldSendNotification_transition
          [of 7 False "\<lparr>lastStatus = Map.empty, trace = []\<rparr>"]
  by simp

section \<open>The filesystem fetcher\<close>

text \<open>
  Claim C2, as the program has it. \<open>fetchDiskUsage\<close> returns the flag false exactly on
  a transport error, a status other than 200 or a body that does not decode, and then
  the server is treated as unreachable: when the CPU and memory fetches of a monitored
  server have succeeded and the disk fetch returns false, the loop body requests nothing
  further and persists the offline outcome (status update and history entry with the
  five numbers 0, empty uptime), with the notification in between when the detector
  reports a transition. On an empty filesystem list the fetcher returns the flag true
  with the value 0, and the server stays online: the loop body goes on to the GPU and
  temperature requests and persists an online outcome with disk usage 0.
\<close>

theorem fetchDiskUsage_outcome:
  "(\<not> fst (fst (fetchDiskUsage c b w))) =
     (fs_resp c = GetError
      \<or> (\<exists>code d. fs_resp c = GetResponse code d \<and> (code \<noteq> 200 \<or> d = None)))
   \<and> (fs_resp c = GetResponse 200 (Some []) \<longrightarrow> fst (fetchDiskUsage c b w) = (True, 0))
   \<and> (fs_resp c = GetResponse 200 (Some (v # vs)) \<longrightarrow> fst (fetchDiskUsage c b w) = (True, v))
   \<and> (Monitoring s \<and> Valid (MonitoringURL s)
        \<and> fst (fst (fetchCPUUsage c (TrimSuffix (String (MonitoringURL s)) ''/'') w))
        \<and> fst (fst (fetchMemoryUsage c (TrimSuffix (String (MonitoringURL s)) ''/'') w))
        \<and> \<not> fst (fst (fetchDiskUsage c (TrimSuffix (String (MonitoringURL s)) ''/'') w))
      \<longrightarrow> trace (monitorServer t c s w) =
            trace w @
              [HttpGet (TrimSuffix (String (MonitoringURL s)) ''/'' @ ''/api/4/cpu''),
               HttpGet (TrimSuffix (String (MonitoringURL s)) ''/'' @ ''/api/4/uptime''),
               HttpGet (TrimSuffix (String (MonitoringURL s)) ''/'' @ ''/api/4/mem''),
               HttpGet (TrimSuffix (String (MonitoringURL s)) ''/'' @ ''/api/4/fs''),
               UpdateStatus (ID s) False 0 0 0 0 0 []]
              @ (if fst (shouldSendNotification (ID s) False w)
                 then [SendNotifications (renderMessage t (Name s) False)] else [])
              @ [AddHistory (ID s) False 0 0 0 0 0])
   \<and> (Monitoring s \<and> Valid (MonitoringURL s)
        \<and> fst (fst (fetchCPUUsage c (TrimSuffix (String (MonitoringURL s)) ''/'') w))
        \<and> fst (fst (fetchMemoryUsage c (TrimSuffix (String (MonitoringURL s)) ''/'') w))
        \<and> fs_resp c = GetResponse 200 (Some [])
      \<longrightarrow> trace (monitorServer t c s w) =
            trace w @
              [HttpGet (TrimSuffix (String (MonitoringURL s)) ''/'' @ ''/api/4/cpu''),
               HttpGet (TrimSuffix (String (MonitoringURL s)) ''/'' @ ''/api/4/uptime''),
               HttpGet (TrimSuffix (String (MonitoringURL s)) ''/'' @ ''/api/4/mem''),
               HttpGet (TrimSuffix (String (MonitoringURL s)) ''/'' @ ''/api/4/fs''),
               HttpGet (TrimSuffix (String (MonitoringURL s)) ''/'' @ ''/api/4/gpu''),
               HttpGet (TrimSuffix (String (MonitoringURL s)) ''/''
                          @ ''/api/4/sensors/label/value/Composite'')]
              @ (if \<not> Online s \<and> fst (shouldSendNotification (ID s) True w)
                 then [SendNotifications (renderMessage t (Name s) True)] else [])
              @ [UpdateStatus (ID s) True
                   (snd (fst (fetchCPUUsage c (TrimSuffix (String (MonitoringURL s)) ''/'') w)))
                   (snd (fst (fetchMemoryUsage c (TrimSuffix (String (MonitoringURL s)) ''/'') w)))
                   0
                   (snd (fst (fetchGPUUsage c (TrimSuffix (String (MonitoringURL s)) ''/'') w)))
                   (snd (fst (fetchTemperature c (TrimSuffix (String (MonitoringURL s)) ''/'') w)))
                   (fst (fetchUptime c (TrimSuffix (String (MonitoringURL s)) ''/'') w)),
                 AddHistory (ID s) True
                   (snd (fst (fetchCPUUsage c (TrimSuffix (String (MonitoringURL s)) ''/'') w)))
                   (snd (fst (fetchMemoryUsage c (TrimSuffix (String (MonitoringURL s)) ''/'') w)))
                   0
                   (snd (fst (fetchGPUUsage c (TrimSuffix (String (MonitoringURL s)) ''/'') w)))
                   (snd (fst (fetchTemperature c (TrimSuffix (String (MonitoringURL s)) ''/'') w)))])"
proof (intro conjI impI)
  show "(\<not> fst (fst (fetchDiskUsage c b w))) =
     (fs_resp c = GetError
      \<or> (\<exists>code d. fs_resp c = GetResponse code d \<and> (code \<noteq> 200 \<or> d = None)))"
    by (auto simp: fetchDiskUsage_fst split: http_result.splits option.splits)
next
  assume "fs_resp c = GetResponse 200 (Some [])"
  then show "fst (fetchDiskUsage c b w) = (True, 0)"
    by (simp add: fetchDiskUsage_fst)
next
  assume "fs_resp c = GetResponse 200 (Some (v # vs))"
  then show "fst (fetchDiskUsage c b w) = (True, v)"
    by (simp add: fetchDiskUsage_fst)
next
  let ?b = "TrimSuffix (String (MonitoringURL s)) ''/''"
  assume "Monitoring s \<and> Valid (MonitoringURL s)
        \<and> fst (fst (fetchCPUUsage c ?b w)) \<and> fst (fst (fetchMemoryUsage c ?b w))
        \<and> \<not> fst (fst (fetchDiskUsage c ?b w))"
  then show "trace (monitorServer t c s w) =
            trace w @
              [HttpGet (?b @ ''/api/4/cpu''), HttpGet (?b @ ''/api/4/uptime''),
               HttpGet (?b @ ''/api/4/mem''), HttpGet (?b @ ''/api/4/fs''),
               UpdateStatus (ID s) False 0 0 0 0 0 []]
              @ (if fst (shouldSendNotification (ID s) False w)
                 then [SendNotifications (renderMessage t (Name s) False)] else [])
              @ [AddHistory (ID s) False 0 0 0 0 0]"
    by (simp add: monitorServer_def trace_reportOffline split_beta Let_def fst_shouldSend)
next
  let ?b = "TrimSuffix (String (MonitoringURL s)) ''/''"
  assume h: "Monitoring s \<and> Valid (MonitoringURL s)
        \<and> fst (fst (fetchCPUUsage c ?b w)) \<and> fst (fst (fetchMemoryUsage c ?b w))
        \<and> fs_resp c = GetResponse 200 (Some [])"
  then have d: "fst (fetchDiskUsage c ?b w) = (True, 0)"
    by (simp add: fetchDiskUsage_fst)
  show "trace (monitorServer t c s w) =
            trace w @
              [HttpGet (?b @ ''/api/4/cpu''), HttpGet (?b @ ''/api/4/uptime''),
               HttpGet (?b @ ''/api/4/mem''), HttpGet (?b @ ''/api/4/fs''),
               HttpGet (?b @ ''/api/4/gpu''),
               HttpGet (?b @ ''/api/4/sensors/label/value/Composite'')]
              @ (if \<not> Online s \<and> fst (shouldSendNotification (ID s) True w)
                 then [SendNotifications (renderMessage t (Name s) True)] else [])
              @ [UpdateStatus (ID s) True
                   (snd (fst (fetchCPUUsage c ?b w))) (snd (fst (fetchMemoryUsage c ?b w))) 0
                   (snd (fst (fetchGPUUsage c ?b w))) (snd (fst (fetchTemperature c ?b w)))
                   (fst (fetchUptime c ?b w)),
                 AddHistory (ID s) True
                   (snd (fst (fetchCPUUsage c ?b w))) (snd (fst (fetchMemoryUsage c ?b w))) 0
                   (snd (fst (fetchGPUUsage c ?b w))) (snd (fst (fetchTemperature c ?b w)))]"
    using h by (simp add: monitorServer_def split_beta Let_def op_defs fst_shouldSend d)
qed

theorem fetchDiskUsage_outcome_witness:
  "fs_resp (upClient []) = GetResponse 200 (Some [])
   \<and> fst (fetchDiskUsage (upClient []) ''http://h'' freshWorld) = (True, 0)
   \<and> fs_resp (upClient [61]) = GetResponse 200 (Some [61])
   \<and> fst (fetchDiskUsage (upClient [61]) ''http://h'' freshWorld) = (True, 61)
   \<and> \<not> fst (fst (fetchDiskUsage diskDownClient ''http://h'' freshWorld))
   \<and> trace (monitorServer ''!name: !status'' diskDownClient webServer freshWorld) =
       [HttpGet ''http://h/api/4/cpu'', HttpGet ''http://h/api/4/uptime'',
        HttpGet ''http://h/api/4/mem'', HttpGet ''http://h/api/4/fs'',
        UpdateStatus 1 False 0 0 0 0 0 [],
        SendNotifications ''web: offline'',
        AddHistory 1 False 0 0 0 0 0]
   \<and> trace (monitorServer ''!name: !status'' (upClient []) webServer freshWorld) =
       [HttpGet ''http://h/api/4/cpu'', HttpGet ''http://h/api/4/uptime'',
        HttpGet ''http://h/api/4/mem'', HttpGet ''http://h/api/4/fs'',
        HttpGet ''http://h/api/4/gpu'',
        HttpGet ''http://h/api/4/sensors/label/value/Composite'',
        UpdateStatus 1 True 42 55 0 0 0 ''1.7 17:39'',
        AddHistory 1 True 42 55 0 0 0]"
proof -
  let ?b = "TrimSuffix (String (MonitoringURL webServer)) ''/''"
  let ?t = "''!name: !status''"
  note E = fetchDiskUsage_outcome
             [where c = "upClient []" and b = "''http://h''" and w = freshWorld
                and s = webServer and t = ?t]
  note V = fetchDiskUsage_outcome
             [where c = "upClient [61]" and b = "''http://h''" and w = freshWorld
                and v = 61 and vs = "[]"]
  note D = fetchDiskUsage_outcome
             [where c = diskDownClient and b = "''http://h''" and w = freshWorld
                and s = webServer and t = ?t]
  have e: "fs_resp (upClient []) = GetResponse 200 (Some [])"
    and v: "fs_resp (upClient [61]) = GetResponse 200 (Some [61])"
    and d: "fs_resp diskDownClient = GetResponse 500 None"
    by (simp_all add: upClient_def diskDownClient_def)
  have m: "Monitoring webServer" "Valid (MonitoringURL webServer)"
    by (simp_all add: webServer_def)
  have up: "fst (fst (fetchCPUUsage (upClient []) ?b freshWorld))"
    "fst (fst (fetchMemoryUsage (upClient []) ?b freshWorld))"
    "fst (fst (fetchCPUUsage diskDownClient ?b freshWorld))"
    "fst (fst (fetchMemoryUsage diskDownClient ?b freshWorld))"
    by (simp_all add: fetch_fst upClient_def diskDownClient_def)
  have 1: "fst (fetchDiskUsage (upClient []) ''http://h'' freshWorld) = (True, 0)"
    using E e by blast
  have 2: "fst (fetchDiskUsage (upClient [61]) ''http://h'' freshWorld) = (True, 61)"
    using V v by blast
  have 3: "\<not> fst (fst (fetchDiskUsage diskDownClient ''http://h'' freshWorld))"
    using D d by blast
  have dd: "\<not> fst (fst (fetchDiskUsage diskDownClient ?b freshWorld))"
    using d by (simp add: fetchDiskUsage_fst)
  have "trace (monitorServer ?t diskDownClient webServer freshWorld) =
          trace freshWorld @
            [HttpGet (?b @ ''/api/4/cpu''), HttpGet (?b @ ''/api/4/uptime''),
             HttpGet (?b @ ''/api/4/mem''), HttpGet (?b @ ''/api/4/fs''),
             UpdateStatus (ID webServer) False 0 0 0 0 0 []]
            @ (if fst (shouldSendNotification (ID webServer) False freshWorld)
               then [SendNotifications (renderMessage ?t (Name webServer) False)] else [])
            @ [AddHistory (ID webServer) False 0 0 0 0 0]"
    using D m up(3,4) dd by blast
  also have "\<dots> =
       [HttpGet ''http://h/api/4/cpu'', HttpGet ''http://h/api/4/uptime'',
        HttpGet ''http://h/api/4/mem'', HttpGet ''http://h/api/4/fs'',
        UpdateStatus 1 False 0 0 0 0 0 [],
        SendNotifications ''web: offline'',
        AddHistory 1 False 0 0 0 0 0]"
    by code_simp
  finally have 4: "trace (monitorServer ?t diskDownClient webServer freshWorld) =
       [HttpGet ''http://h/api/4/cpu'', HttpGet ''http://h/api/4/uptime'',
        HttpGet ''http://h/api/4/mem'', HttpGet ''http://h/api/4/fs'',
        UpdateStatus 1 False 0 0 0 0 0 [],
        SendNotifications ''web: offline'',
        AddHistory 1 False 0 0 0 0 0]" .
  have "trace (monitorServer ?t (upClient []) webServer freshWorld) =
          trace freshWorld @
            [HttpGet (?b @ ''/api/4/cpu''), HttpGet (?b @ ''/api/4/uptime''),
             HttpGet (?b @ ''/api/4/mem''), HttpGet (?b @ ''/api/4/fs''),
             HttpGet (?b @ ''/api/4/gpu''),
             HttpGet (?b @ ''/api/4/sensors/label/value/Composite'')]
            @ (if \<not> Online webServer \<and> fst (shouldSendNotification (ID webServer) True freshWorld)
               then [SendNotifications (renderMessage ?t (Name webServer) True)] else [])
            @ [UpdateStatus (ID webServer) True
                 (snd (fst (fetchCPUUsage (upClient []) ?b freshWorld)))
                 (snd (fst (fetchMemoryUsage (upClient []) ?b freshWorld))) 0
                 (snd (fst (fetchGPUUsage (upClient []) ?b freshWorld)))
                 (snd (fst (fetchTemperature (upClient []) ?b freshWorld)))
                 (fst (fetchUptime (upClient []) ?b freshWorld)),
               AddHistory (ID webServer) True
                 (snd (fst (fetchCPUUsage (upClient []) ?b freshWorld)))
                 (snd (fst (fetchMemoryUsage (upClient []) ?b freshWorld))) 0
                 (snd (fst (fetchGPUUsage (upClient []) ?b freshWorld)))
                 (snd (fst (fetchTemperature (upClient []) ?b freshWorld)))]"
    using E m up(1,2) e by blast
  also have "\<dots> =
       [HttpGet ''http://h/api/4/cpu'', HttpGet ''http://h/api/4/uptime'',
        HttpGet ''http://h/api/4/mem'', HttpGet ''http://h/api/4/fs'',
        HttpGet ''http://h/api/4/gpu'',
        HttpGet ''http://h/api/4/sensors/label/value/Composite'',
        UpdateStatus 1 True 42 55 0 0 0 ''1.7 17:39'',
        AddHistory 1 True 42 55 0 0 0]"
    by code_simp
  finally have 5: "trace (monitorServer ?t (upClient []) webServer freshWorld) =
       [HttpGet ''http://h/api/4/cpu'', HttpGet ''http://h/api/4/uptime'',
        HttpGet ''http://h/api/4/mem'', HttpGet ''http://h/api/4/fs'',
        HttpGet ''http://h/api/4/gpu'',
        HttpGet ''http://h/api/4/sensors/label/value/Composite'',
        UpdateStatus 1 True 42 55 0 0 0 ''1.7 17:39'',
        AddHistory 1 True 42 55 0 0 0]" .
  show ?thesis
    by (intro conjI e 1 v 2 3 4 5)
qed

text \<open>
  The claim as stated fails: for an empty filesystem list the flag is true, and the
  cycle records the server as online with disk usage 0.
\<close>

theorem fetchDiskUsage_empty_list_counterexample:
  "fst (fetchDiskUsage (upClient []) ''http://h'' freshWorld) = (True, 0)
   \<and> trace (MonitorServers None (sameClient (upClient [])) [webServer] freshWorld) =
       [HttpGet ''http://h/api/4/cpu'', HttpGet ''http://h/api/4/uptime'',
        HttpGet ''http://h/api/4/mem'', HttpGet ''http://h/api/4/fs'',
        HttpGet ''http://h/api/4/gpu'',
        HttpGet ''http://h/api/4/sensors/label/value/Composite'',
        UpdateStatus 1 True 42 55 0 0 0 ''1.7 17:39'',
        AddHistory 1 True 42 55 0 0 0]"
  by code_simp

section \<open>The monitoring cycle: what is persisted\<close>

lemma monitorServer_offlineZeroed:
  "list_all offlineZeroed (trace w) \<Longrightarrow>
   list_all offlineZeroed (trace (monitorServer t c s w))"
  by (simp add: monitorServer_def trace_reportOffline split_beta Let_def offlineZeroed_def
        op_defs)

lemma monitorLoop_offlineZeroed:
  "list_all offlineZeroed (trace w) \<Longrightarrow>
   list_all offlineZeroed (trace (monitorLoop t net i servers w))"
  by (induction servers arbitrary: i w) (simp_all add: monitorServer_offlineZeroed)

text \<open>
  Claim C3. Whatever the responses, every status update and every history entry that a
  cycle issues with the online flag off has the five numbers equal to 0, and the status
  update has the empty uptime string.
\<close>

theorem offline_outcome_zeroed:
  "list_all offlineZeroed (trace w) \<Longrightarrow>
   list_all offlineZeroed (trace (MonitorServers db net servers w))"
  by (simp add: MonitorServers_def monitorLoop_offlineZeroed)

theorem offline_outcome_zeroed_witness:
  "list_all offlineZeroed (trace freshWorld)
   \<and> list_all offlineZeroed
        (trace (MonitorServers None firstDown
                  [webServer, webServer] freshWorld))
   \<and> offlineZeroed (UpdateStatus 1 False 0 0 0 0 0 [])
   \<and> \<not> offlineZeroed (UpdateStatus 1 False 42 0 0 0 0 [])
   \<and> \<not> offlineZeroed (AddHistory 1 False 0 0 0 0 7)"
proof -
  have "list_all offlineZeroed (trace freshWorld)"
    by (simp add: freshWorld_def)
  then show ?thesis
    using offline_outcome_zeroed [of freshWorld None
            firstDown "[webServer, webServer]"]
    by (simp add: offlineZeroed_def)
qed

text \<open>
  Claim C5. When the CPU fetch of a monitored server returns the flag false, the loop
  body requests the CPU endpoint and nothing else, and persists the offline outcome:
  a status update and a history entry with the five numbers 0 and the empty uptime,
  with the notification in between when the detector reports a transition.
\<close>

theorem cpu_failure_short_circuit:
  assumes "Monitoring s" and "Valid (MonitoringURL s)"
    and "\<not> fst (fst (fetchCPUUsage c (TrimSuffix (String (MonitoringURL s)) ''/'') w))"
  shows "trace (monitorServer t c s w) =
     trace w @ [HttpGet (TrimSuffix (String (MonitoringURL s)) ''/'' @ ''/api/4/cpu''),
                UpdateStatus (ID s) False 0 0 0 0 0 []]
       @ (if fst (shouldSendNotification (ID s) False w)
          then [SendNotifications (renderMessage t (Name s) False)] else [])
       @ [AddHistory (ID s) False 0 0 0 0 0]"
  using assms
  by (simp add: monitorServer_def trace_reportOffline split_beta Let_def fst_shouldSend)

theorem cpu_failure_short_circuit_witness:
  "Monitoring webServer \<and> Valid (MonitoringURL webServer)
   \<and> \<not> fst (fst (fetchCPUUsage downClient
                   (TrimSuffix (String (MonitoringURL webServer)) ''/'') freshWorld))
   \<and> trace (monitorServer ''!name: !status'' downClient webServer freshWorld) =
       [HttpGet ''http://h/api/4/cpu'',
        UpdateStatus 1 False 0 0 0 0 0 [],
        SendNotifications ''web: offline'',
        AddHistory 1 False 0 0 0 0 0]"
proof -
  have a: "Monitoring webServer" and b: "Valid (MonitoringURL webServer)"
    by (simp_all add: webServer_def)
  have c: "\<not> fst (fst (fetchCPUUsage downClient
                   (TrimSuffix (String (MonitoringURL webServer)) ''/'') freshWorld))"
    by code_simp
  have d: "trace freshWorld @
       [HttpGet (TrimSuffix (String (MonitoringURL webServer)) ''/'' @ ''/api/4/cpu''),
        UpdateStatus (ID webServer) False 0 0 0 0 0 []]
       @ (if fst (shouldSendNotification (ID webServer) False freshWorld)
          then [SendNotifications (renderMessage ''!name: !status'' (Name webServer) False)]
          else [])
       @ [AddHistory (ID webServer) False 0 0 0 0 0] =
       [HttpGet ''http://h/api/4/cpu'',
        UpdateStatus 1 False 0 0 0 0 0 [],
        SendNotifications ''web: offline'',
        AddHistory 1 False 0 0 0 0 0]"
    by code_simp
  have e: "trace (monitorServer ''!name: !status'' downClient webServer freshWorld) =
       [HttpGet ''http://h/api/4/cpu'',
        UpdateStatus 1 False 0 0 0 0 0 [],
        SendNotifications ''web: offline'',
        AddHistory 1 False 0 0 0 0 0]"
    by (rule trans [OF cpu_failure_short_circuit [OF a b c] d])
  show ?thesis
    by (intro conjI a b c e)
qed

lemma monitorServer_updates:
  "length (filter (isUpdateFor i) (trace (monitorServer t c s w))) =
     length (filter (isUpdateFor i) (trace w)) + (if monitored s \<and> ID s = i then 1 else 0)"
  by (simp add: monitorServer_def trace_reportOffline split_beta Let_def isUpdateFor_def
        op_defs monitored_def)

lemma monitorServer_histories:
  "length (filter (isHistoryFor i) (trace (monitorServer t c s w))) =
     length (filter (isHistoryFor i) (trace w)) + (if monitored s \<and> ID s = i then 1 else 0)"
  by (simp add: monitorServer_def trace_reportOffline split_beta Let_def isHistoryFor_def
        op_defs monitored_def)

lemma monitorLoop_counts:
  "length (filter (isUpdateFor i) (trace (monitorLoop t net k servers w))) =
     length (filter (isUpdateFor i) (trace w))
       + length (filter (\<lambda>s. monitored s \<and> ID s = i) servers)
   \<and> length (filter (isHistoryFor i) (trace (monitorLoop t net k servers w))) =
     length (filter (isHistoryFor i) (trace w))
       + length (filter (\<lambda>s. monitored s \<and> ID s = i) servers)"
  by (induction servers arbitrary: k w)
     (simp_all add: monitorServer_updates monitorServer_histories)

text \<open>
  Claim C6. For a server that is not skipped the loop body issues exactly one status
  update and exactly one history entry for its identifier, whatever the responses, the
  outcome and the notification. Hence a cycle issues, for every server identifier, as
  many status updates and as many history entries as the list has servers with this
  identifier that are not skipped.
\<close>

theorem one_update_one_history_per_server:
  "(monitored s \<longrightarrow>
      length (filter (isUpdateFor (ID s)) (trace (monitorServer t c s w))) =
        length (filter (isUpdateFor (ID s)) (trace w)) + 1
    \<and> length (filter (isHistoryFor (ID s)) (trace (monitorServer t c s w))) =
        length (filter (isHistoryFor (ID s)) (trace w)) + 1)
   \<and> length (filter (isUpdateFor i) (trace (MonitorServers db net servers w))) =
       length (filter (isUpdateFor i) (trace w))
         + length (filter (\<lambda>s. monitored s \<and> ID s = i) servers)
   \<and> length (filter (isHistoryFor i) (trace (MonitorServers db net servers w))) =
       length (filter (isHistoryFor i) (trace w))
         + length (filter (\<lambda>s. monitored s \<and> ID s = i) servers)"
  by (simp add: MonitorServers_def monitorLoop_counts monitorServer_updates
        monitorServer_histories)

theorem one_update_one_history_per_server_witness:
  "monitored webServer
   \<and> length (filter (isUpdateFor 1)
        (trace (monitorServer ''!name: !status'' downClient webServer freshWorld))) = 1
   \<and> length (filter (isHistoryFor 1)
        (trace (monitorServer ''!name: !status'' downClient webServer freshWorld))) = 1
   \<and> length (filter (isUpdateFor 1)
        (trace (MonitorServers None (sameClient downClient)
                  [webServer, webServer\<lparr>ID := 2, Monitoring := False\<rparr>] freshWorld))) = 1
   \<and> length (filter (isHistoryFor 1)
        (trace (MonitorServers None (sameClient downClient)
                  [webServer, webServer\<lparr>ID := 2, Monitoring := False\<rparr>] freshWorld))) = 1
   \<and> length (filter (isUpdateFor 2)
        (trace (MonitorServers None (sameClient downClient)
                  [webServer, webServer\<lparr>ID := 2, Monitoring := False\<rparr>] freshWorld))) = 0"
  using one_update_one_history_per_server [of webServer "''!name: !status''" downClient
          freshWorld 1 None "sameClient downClient"
          "[webServer, webServer\<lparr>ID := 2, Monitoring := False\<rparr>]"]
    one_update_one_history_per_server [of webServer "''!name: !status''" downClient
          freshWorld 2 None "sameClient downClient"
          "[webServer, webServer\<lparr>ID := 2, Monitoring := False\<rparr>]"]
  by (simp add: webServer_def freshWorld_def monitored_def)

section \<open>Optional metrics\<close>

text \<open>
  Claim C9. \<open>fetchGPUUsage\<close> and \<open>fetchTemperature\<close> return the flag true in
  every case, with the value 0 on a transport error, a status other than 200, a body
  that does not decode and (for the temperature) an empty sensor list. When the CPU,
  memory and disk fetches of a monitored server succeed and the GPU fetch fails, the
  loop body ends with a status update and a history entry that are online with GPU
  usage 0.
\<close>

theorem optional_metrics_never_fail:
  "fst (fst (fetchGPUUsage c b w)) \<and> fst (fst (fetchTemperature c b w))
   \<and> (gpu_resp c = GetError
        \<or> (\<exists>code d. gpu_resp c = GetResponse code d \<and> (code \<noteq> 200 \<or> d = None))
      \<longrightarrow> fst (fetchGPUUsage c b w) = (True, 0))
   \<and> (temp_resp c = GetError
        \<or> (\<exists>code d. temp_resp c = GetResponse code d
                      \<and> (code \<noteq> 200 \<or> d = None \<or> d = Some []))
      \<longrightarrow> fst (fetchTemperature c b w) = (True, 0))
   \<and> (Monitoring s \<and> Valid (MonitoringURL s)
        \<and> fst (fst (fetchCPUUsage c (TrimSuffix (String (MonitoringURL s)) ''/'') w))
        \<and> fst (fst (fetchMemoryUsage c (TrimSuffix (String (MonitoringURL s)) ''/'') w))
        \<and> fst (fst (fetchDiskUsage c (TrimSuffix (String (MonitoringURL s)) ''/'') w))
        \<and> (gpu_resp c = GetError
            \<or> (\<exists>code d. gpu_resp c = GetResponse code d \<and> (code \<noteq> 200 \<or> d = None)))
      \<longrightarrow> (\<exists>evs cpu ram disk temp up.
            trace (monitorServer t c s w) =
              trace w @ evs @ [UpdateStatus (ID s) True cpu ram disk 0 temp up,
                               AddHistory (ID s) True cpu ram disk 0 temp]))"
proof (intro conjI impI)
  show "fst (fst (fetchGPUUsage c b w))" "fst (fst (fetchTemperature c b w))"
    by (simp_all add: fetch_fst)
next
  assume "gpu_resp c = GetError
        \<or> (\<exists>code d. gpu_resp c = GetResponse code d \<and> (code \<noteq> 200 \<or> d = None))"
  then show "fst (fetchGPUUsage c b w) = (True, 0)"
    by (auto simp: fetchGPUUsage_fst)
next
  assume "temp_resp c = GetError
        \<or> (\<exists>code d. temp_resp c = GetResponse code d
                      \<and> (code \<noteq> 200 \<or> d = None \<or> d = Some []))"
  then show "fst (fetchTemperature c b w) = (True, 0)"
    by (auto simp: fetchTemperature_fst)
next
  let ?b = "TrimSuffix (String (MonitoringURL s)) ''/''"
  assume h: "Monitoring s \<and> Valid (MonitoringURL s)
        \<and> fst (fst (fetchCPUUsage c ?b w))
        \<and> fst (fst (fetchMemoryUsage c ?b w))
        \<and> fst (fst (fetchDiskUsage c ?b w))
        \<and> (gpu_resp c = GetError
            \<or> (\<exists>code d. gpu_resp c = GetResponse code d \<and> (code \<noteq> 200 \<or> d = None)))"
  then have g: "snd (fst (fetchGPUUsage c ?b w)) = 0"
    by (auto simp: fetchGPUUsage_fst)
  have "\<exists>evs. trace (monitorServer t c s w) =
      trace w @ evs @
        [UpdateStatus (ID s) True (snd (fst (fetchCPUUsage c ?b w)))
           (snd (fst (fetchMemoryUsage c ?b w))) (snd (fst (fetchDiskUsage c ?b w))) 0
           (snd (fst (fetchTemperature c ?b w))) (fst (fetchUptime c ?b w)),
         AddHistory (ID s) True (snd (fst (fetchCPUUsage c ?b w)))
           (snd (fst (fetchMemoryUsage c ?b w))) (snd (fst (fetchDiskUsage c ?b w))) 0
           (snd (fst (fetchTemperature c ?b w)))]"
    using h by (simp add: monitorServer_def split_beta Let_def op_defs g)
  then show "\<exists>evs cpu ram disk temp up.
            trace (monitorServer t c s w) =
              trace w @ evs @ [UpdateStatus (ID s) True cpu ram disk 0 temp up,
                               AddHistory (ID s) True cpu ram disk 0 temp]"
    by blast
qed

theorem optional_metrics_never_fail_witness:
  "gpu_resp (upClient [61]) = GetError
   \<and> temp_resp (upClient [61]) = GetResponse 200 (Some [])
   \<and> fst (fetchGPUUsage (upClient [61]) ''http://h'' freshWorld) = (True, 0)
   \<and> fst (fetchTemperature (upClient [61]) ''http://h'' freshWorld) = (True, 0)
   \<and> (\<exists>evs cpu ram disk temp up.
        trace (monitorServer ''!name: !status'' (upClient [61]) webServer freshWorld) =
          trace freshWorld @ evs @ [UpdateStatus (ID webServer) True cpu ram disk 0 temp up,
                                   AddHistory (ID webServer) True cpu ram disk 0 temp])"
proof -
  let ?b = "TrimSuffix (String (MonitoringURL webServer)) ''/''"
  have g: "gpu_resp (upClient [61]) = GetError"
    and t: "temp_resp (upClient [61]) = GetResponse 200 (Some [])"
    by (simp_all add: upClient_def)
  have m: "Monitoring webServer" "Valid (MonitoringURL webServer)"
    by (simp_all add: webServer_def)
  have f: "fst (fst (fetchCPUUsage (upClient [61]) ?b freshWorld))"
    "fst (fst (fetchMemoryUsage (upClient [61]) ?b freshWorld))"
    "fst (fst (fetchDiskUsage (upClient [61]) ?b freshWorld))"
    by (simp_all add: fetch_fst upClient_def)
  note T = optional_metrics_never_fail [of "upClient [61]" "''http://h''" freshWorld
             webServer "''!name: !status''"]
  have 1: "fst (fetchGPUUsage (upClient [61]) ''http://h'' freshWorld) = (True, 0)"
    using T g by blast
  have 2: "fst (fetchTemperature (upClient [61]) ''http://h'' freshWorld) = (True, 0)"
    using T t by blast
  have 3: "\<exists>evs cpu ram disk temp up.
        trace (monitorServer ''!name: !status'' (upClient [61]) webServer freshWorld) =
          trace freshWorld @ evs @ [UpdateStatus (ID webServer) True cpu ram disk 0 temp up,
                                   AddHistory (ID webServer) True cpu ram disk 0 temp]"
    using T g m f by blast
  show ?thesis
    by (intro conjI g t 1 2 3)
qed

section \<open>The monitoring cycle: when a notification is dispatched\<close>

text \<open>
  Claim C1, as the program has it. For a monitored server let \<open>online\<close> be the outcome
  of the probe (all three required fetches return the flag true). When the outcome is
  offline the detector is consulted with the server's identifier and the outcome, and
  a notification is dispatched exactly when it reports a transition. When the outcome
  is online the detector is consulted only if the persisted snapshot of the server says
  offline, and a notification is dispatched exactly when the snapshot says offline and
  the detector reports a transition; otherwise nothing is dispatched and the detector's
  memory is left as it was.
\<close>

theorem notification_dispatch:
  assumes "Monitoring s" and "Valid (MonitoringURL s)"
  shows "(let b = TrimSuffix (String (MonitoringURL s)) ''/'';
              online = (fst (fst (fetchCPUUsage c b w)) \<and> fst (fst (fetchMemoryUsage c b w))
                        \<and> fst (fst (fetchDiskUsage c b w)));
              consulted = (\<not> online \<or> online \<noteq> Online s)
          in filter isNotification (trace (monitorServer t c s w)) =
               filter isNotification (trace w) @
                 (if consulted \<and> fst (shouldSendNotification (ID s) online w)
                  then [SendNotifications (renderMessage t (Name s) online)] else [])
           \<and> lastStatus (monitorServer t c s w) =
               (if consulted then lastStatus (snd (shouldSendNotification (ID s) online w))
                else lastStatus w))"
  using assms
  by (simp add: monitorServer_def trace_reportOffline lastStatus_reportOffline split_beta
        Let_def isNotification_def op_defs fst_shouldSend)

theorem notification_dispatch_witness:
  "Monitoring webServer \<and> Valid (MonitoringURL webServer)
   \<and> (let b = TrimSuffix (String (MonitoringURL webServer)) ''/'';
          online = (fst (fst (fetchCPUUsage downClient b freshWorld))
                    \<and> fst (fst (fetchMemoryUsage downClient b freshWorld))
                    \<and> fst (fst (fetchDiskUsage downClient b freshWorld)));
          consulted = (\<not> online \<or> online \<noteq> Online webServer)
      in filter isNotification
           (trace (monitorServer ''!name: !status'' downClient webServer freshWorld)) =
           filter isNotification (trace freshWorld) @
             (if consulted \<and> fst (shouldSendNotification (ID webServer) online freshWorld)
              then [SendNotifications (renderMessage ''!name: !status'' (Name webServer) online)]
              else [])
       \<and> lastStatus (monitorServer ''!name: !status'' downClient webServer freshWorld) =
           (if consulted
            then lastStatus (snd (shouldSendNotification (ID webServer) online freshWorld))
            else lastStatus freshWorld))
   \<and> filter isNotification
        (trace (monitorServer ''!name: !status'' downClient webServer freshWorld)) =
        [SendNotifications ''web: offline'']"
proof -
  have a: "Monitoring webServer" and b: "Valid (MonitoringURL webServer)"
    by (simp_all add: webServer_def)
  have e: "filter isNotification
        (trace (monitorServer ''!name: !status'' downClient webServer freshWorld)) =
        [SendNotifications ''web: offline'']"
    by code_simp
  show ?thesis
    by (intro conjI a b e notification_dispatch [OF a b])
qed

text \<open>
  The claim as stated fails: a server that has no entry in the detector's memory, is
  found online and has a persisted snapshot that says online gets no notification,
  although the detector, asked about it, would report a transition; the detector is not
  asked and its memory stays empty.
\<close>

theorem first_probe_online_counterexample:
  "Monitoring webServer \<and> Valid (MonitoringURL webServer) \<and> Online webServer
   \<and> lastStatus freshWorld (ID webServer) = None
   \<and> fst (shouldSendNotification (ID webServer) True freshWorld)
   \<and> trace (MonitorServers None (sameClient (upClient [61])) [webServer] freshWorld) =
       [HttpGet ''http://h/api/4/cpu'', HttpGet ''http://h/api/4/uptime'',
        HttpGet ''http://h/api/4/mem'', HttpGet ''http://h/api/4/fs'',
        HttpGet ''http://h/api/4/gpu'',
        HttpGet ''http://h/api/4/sensors/label/value/Composite'',
        UpdateStatus 1 True 42 55 61 0 0 ''1.7 17:39'',
        AddHistory 1 True 42 55 61 0 0]
   \<and> lastStatus (MonitorServers None (sameClient (upClient [61])) [webServer] freshWorld)
        (ID webServer) = None"
  by code_simp

section \<open>The uptime normalizer: parse failures\<close>

lemma case_one_int:
  "(\<And>d. f d = u) \<Longrightarrow> g = u \<Longrightarrow> (case x of Some [d] \<Rightarrow> f d | _ \<Rightarrow> g) = (u::string)"
  for x :: "int list option"
  by (auto split: option.splits list.splits)


lemma formatSince_None:
  "Sscanf timeStr ''%d:%d:%d'' = None \<Longrightarrow> formatSince nw tz u d timeStr = u"
  by (simp add: formatSince_def)


text \<open>
  The scanner stops a number at the first character that is not a digit and accepts
  every white-space character of Unicode (here the no-break space, bytes C2 A0) where
  it skips white space; text after the last verb is left unread. Such inputs are parsed,
  the examples after the first are not parse failures.
\<close>

lemma Sscanf_examples:
  "Sscanf ''garbage'' ''%d:%d:%d'' = None
   \<and> Sscanf ''0:05:10_'' ''%d:%d:%d'' = Some [0, 5, 10]
   \<and> Sscanf ''3:52:36_7'' ''%d:%d:%d'' = Some [3, 52, 36]
   \<and> Sscanf ([CHR ''3'', CHR 0xC2, CHR 0xA0] @ ''days'') ''%d days'' = Some [3]
   \<and> Sscanf (''3:52:'' @ [CHR 0xC2, CHR 0xA0] @ ''36'') ''%d:%d:%d'' = Some [3, 52, 36]
   \<and> Sscanf ''1_0 days'' ''%d days'' = None
   \<and> Sscanf ''3days'' ''%d days'' = None"
  by code_simp

lemma formatUptime_examples:
  "formatUptime 1751391876000000000 utc ''0:05:10_'' = ''1.7 17:39''
   \<and> formatUptime 1751391876000000000 utc ([CHR ''3'', CHR 0xC2, CHR 0xA0] @ ''days, 3:52:36'')
       = ''28.6 13:52''"
  by code_simp

text \<open>
  Claim C8. Whenever a parsing step of \<open>formatUptime\<close> fails (the split gives
  neither one nor two parts, the day count scans with neither \<open>%d days\<close> nor
  \<open>%d day\<close>, or the time of day does not scan with \<open>%d:%d:%d\<close>), the result
  is the input string itself. The function is total: Sscanf reports every failure as an
  error value, and no other step can fail.
\<close>

theorem formatUptime_parse_failure:
  assumes "let parts = Split u '', '' in
             (length parts \<noteq> 1 \<and> length parts \<noteq> 2)
           \<or> (length parts = 2 \<and> Sscanf (parts ! 0) ''%d days'' = None
               \<and> Sscanf (parts ! 0) ''%d day'' = None)
           \<or> (length parts = 2 \<and> Sscanf (parts ! 1) ''%d:%d:%d'' = None)
           \<or> (length parts = 1 \<and> Sscanf (parts ! 0) ''%d:%d:%d'' = None)"
  shows "formatUptime nw tz u = u"
proof -
  let ?parts = "Split u '', ''"
  consider (len) "length ?parts \<noteq> 1" "length ?parts \<noteq> 2"
    | (days) "length ?parts = 2" "Sscanf (?parts ! 0) ''%d days'' = None"
        "Sscanf (?parts ! 0) ''%d day'' = None"
    | (hms2) "length ?parts = 2" "Sscanf (?parts ! 1) ''%d:%d:%d'' = None"
    | (hms1) "length ?parts = 1" "Sscanf (?parts ! 0) ''%d:%d:%d'' = None"
    using assms by (auto simp: Let_def)
  then show ?thesis
  proof cases
    case len
    then show ?thesis by (simp add: formatUptime_def Let_def)
  next
    case days
    then show ?thesis by (simp add: formatUptime_def Let_def)
  next
    case hms2
    have "(case Sscanf (?parts ! 0) ''%d days'' of
             Some [days] \<Rightarrow> formatSince nw tz u days (?parts ! 1)
           | _ \<Rightarrow>
             (case Sscanf (?parts ! 0) ''%d day'' of
                Some [days] \<Rightarrow> formatSince nw tz u days (?parts ! 1)
              | _ \<Rightarrow> u)) = u"
      by (intro case_one_int formatSince_None hms2(2) refl)
    with hms2(1) show ?thesis by (simp add: formatUptime_def Let_def)
  next
    case hms1
    then show ?thesis by (simp add: formatUptime_def Let_def formatSince_None)
  qed
qed

theorem formatUptime_parse_failure_witness:
  "(let parts = Split ''garbage'' '', '' in
      (length parts \<noteq> 1 \<and> length parts \<noteq> 2)
    \<or> (length parts = 2 \<and> Sscanf (parts ! 0) ''%d days'' = None
        \<and> Sscanf (parts ! 0) ''%d day'' = None)
    \<or> (length parts = 2 \<and> Sscanf (parts ! 1) ''%d:%d:%d'' = None)
    \<or> (length parts = 1 \<and> Sscanf (parts ! 0) ''%d:%d:%d'' = None))
   \<and> formatUptime 1751391876000000000 utc ''garbage'' = ''garbage''
   \<and> formatUptime 1751391876000000000 utc ''3 weeks, 1:02:03'' = ''3 weeks, 1:02:03''
   \<and> formatUptime 1751391876000000000 utc ''1 day, 2:03'' = ''1 day, 2:03''
   \<and> formatUptime 1751391876000000000 utc ''1 day, 2 days, 3:04:05''
        = ''1 day, 2 days, 3:04:05''"
proof -
  have g: "let parts = Split ''garbage'' '', '' in
      (length parts \<noteq> 1 \<and> length parts \<noteq> 2)
    \<or> (length parts = 2 \<and> Sscanf (parts ! 0) ''%d days'' = None
        \<and> Sscanf (parts ! 0) ''%d day'' = None)
    \<or> (length parts = 2 \<and> Sscanf (parts ! 1) ''%d:%d:%d'' = None)
    \<or> (length parts = 1 \<and> Sscanf (parts ! 0) ''%d:%d:%d'' = None)"
    by code_simp
  have w: "let parts = Split ''3 weeks, 1:02:03'' '', '' in
      (length parts \<noteq> 1 \<and> length parts \<noteq> 2)
    \<or> (length parts = 2 \<and> Sscanf (parts ! 0) ''%d days'' = None
        \<and> Sscanf (parts ! 0) ''%d day'' = None)
    \<or> (length parts = 2 \<and> Sscanf (parts ! 1) ''%d:%d:%d'' = None)
    \<or> (length parts = 1 \<and> Sscanf (parts ! 0) ''%d:%d:%d'' = None)"
    by code_simp
  have t: "let parts = Split ''1 day, 2:03'' '', '' in
      (length parts \<noteq> 1 \<and> length parts \<noteq> 2)
    \<or> (length parts = 2 \<and> Sscanf (parts ! 0) ''%d days'' = None
        \<and> Sscanf (parts ! 0) ''%d day'' = None)
    \<or> (length parts = 2 \<and> Sscanf (parts ! 1) ''%d:%d:%d'' = None)
    \<or> (length parts = 1 \<and> Sscanf (parts ! 0) ''%d:%d:%d'' = None)"
    by code_simp
  have p: "let parts = Split ''1 day, 2 days, 3:04:05'' '', '' in
      (length parts \<noteq> 1 \<and> length parts \<noteq> 2)
    \<or> (length parts = 2 \<and> Sscanf (parts ! 0) ''%d days'' = None
        \<and> Sscanf (parts ! 0) ''%d day'' = None)
    \<or> (length parts = 2 \<and> Sscanf (parts ! 1) ''%d:%d:%d'' = None)
    \<or> (length parts = 1 \<and> Sscanf (parts ! 0) ''%d:%d:%d'' = None)"
    by code_simp
  show ?thesis
    by (intro conjI g formatUptime_parse_failure [OF g] formatUptime_parse_failure [OF w]
          formatUptime_parse_failure [OF t] formatUptime_parse_failure [OF p])
qed

section \<open>The uptime normalizer: well-formed input\<close>

lemma DecodeRune_ascii:
  "of_char c < (128::int) \<Longrightarrow> DecodeRuneInString (c # cs) = (of_char c, 1)"
  by (simp add: DecodeRuneInString_def)

lemma digit_props:
  "isDigit c \<Longrightarrow> 0 \<le> digitVal c \<and> of_char c < (128::int) \<and> \<not> isSpace (of_char c)
      \<and> of_char c \<noteq> (10::int) \<and> c \<noteq> CHR ''+'' \<and> c \<noteq> CHR ''-'' \<and> c \<noteq> CHR '',''"
  by (auto simp: isDigit_def digitVal_def isSpace_def space_def)

lemma foldl_digit_nonneg:
  "list_all isDigit ds \<Longrightarrow> 0 \<le> a \<Longrightarrow> 0 \<le> foldl (\<lambda>a c. 10 * a + digitVal c) a ds"
  by (induction ds arbitrary: a) (auto simp: digit_props)

lemma decVal_nonneg: "isDigits ds \<Longrightarrow> 0 \<le> decVal ds"
  by (simp add: decVal_def isDigits_def foldl_digit_nonneg)

lemma ParseInt_digits:
  "isDigits ds \<Longrightarrow> decVal ds < 2 ^ 63 \<Longrightarrow> ParseInt ds = Some (decVal ds)"
  by (cases ds) (auto simp: ParseInt_def isDigits_def Let_def digit_props)

lemma scanInt_digits:
  assumes "isDigits ds" "decVal ds < 2 ^ 63"
    and "takeWhile isDigit rest = []"
  shows "scanInt (ds @ rest) = Some (decVal ds, rest)"
proof -
  from assms(1) obtain d ds' where ds: "ds = d # ds'" and d: "isDigit d"
    by (cases ds) (auto simp: isDigits_def)
  have all: "\<And>x. x \<in> set ds \<Longrightarrow> isDigit x"
    using assms(1) by (auto simp: isDigits_def list_all_iff)
  have tw: "takeWhile isDigit (ds @ rest) = ds"
    using all assms(3) by (simp add: takeWhile_append2)
  have "dropWhile isDigit rest = rest"
    using takeWhile_dropWhile_id [of isDigit rest] assms(3) by simp
  then have dw: "dropWhile isDigit (ds @ rest) = rest"
    using all by (simp add: dropWhile_append2)
  have sk: "SkipSpace (ds @ rest) = Some (ds @ rest)"
    using d ds by (simp add: digit_props DecodeRune_ascii)
  have "scanInt (ds @ rest) =
     (let tok = takeWhile isDigit (ds @ rest);
          rest' = dropWhile isDigit (ds @ rest)
      in if tok = [] then None
         else (case ParseInt ([] @ tok) of None \<Rightarrow> None | Some i \<Rightarrow> Some (i, rest')))"
    unfolding scanInt_def sk using d
    by (simp add: ds digit_props Let_def del: takeWhile.simps dropWhile.simps)
  also have "\<dots> = Some (decVal ds, rest)"
    unfolding tw dw using ParseInt_digits [OF assms(1,2)] assms(1)
    by (simp add: isDigits_def Let_def)
  finally show ?thesis .
qed

lemma scanInt_digits_Cons:
  "isDigits ds \<Longrightarrow> decVal ds < 2 ^ 63 \<Longrightarrow> \<not> isDigit c \<Longrightarrow>
   scanInt (ds @ c # cs) = Some (decVal ds, c # cs)"
  by (rule scanInt_digits) simp_all

lemma scanInt_digits_Nil:
  "isDigits ds \<Longrightarrow> decVal ds < 2 ^ 63 \<Longrightarrow> scanInt ds = Some (decVal ds, [])"
  using scanInt_digits [of ds "[]"] by simp

lemma Sscanf_days:
  "isDigits ds \<Longrightarrow> decVal ds < 2 ^ 63 \<Longrightarrow> Sscanf (ds @ '' days'') ''%d days'' = Some [decVal ds]"
  by (simp add: Sscanf_def scanInt_digits_Cons isDigit_def isSpace_def space_def
        DecodeRune_ascii)

lemma Sscanf_day_days:
  "isDigits ds \<Longrightarrow> decVal ds < 2 ^ 63 \<Longrightarrow> Sscanf (ds @ '' day'') ''%d days'' = None"
  by (simp add: Sscanf_def scanInt_digits_Cons isDigit_def isSpace_def space_def
        DecodeRune_ascii)

lemma Sscanf_day:
  "isDigits ds \<Longrightarrow> decVal ds < 2 ^ 63 \<Longrightarrow> Sscanf (ds @ '' day'') ''%d day'' = Some [decVal ds]"
  by (simp add: Sscanf_def scanInt_digits_Cons isDigit_def isSpace_def space_def
        DecodeRune_ascii)

lemma Sscanf_hms:
  "isDigits h \<Longrightarrow> isDigits m \<Longrightarrow> isDigits s \<Longrightarrow>
   decVal h < 2 ^ 63 \<Longrightarrow> decVal m < 2 ^ 63 \<Longrightarrow> decVal s < 2 ^ 63 \<Longrightarrow>
   Sscanf (h @ '':'' @ m @ '':'' @ s) ''%d:%d:%d'' = Some [decVal h, decVal m, decVal s]"
  by (simp add: Sscanf_def scanInt_digits_Cons scanInt_digits_Nil isDigit_def)

lemma splitFrom_skip:
  "CHR '','' \<notin> set xs \<Longrightarrow> splitFrom '', '' cur (xs @ rest) = splitFrom '', '' (cur @ xs) rest"
  by (induction xs arbitrary: cur) auto



lemma Split_one: "CHR '','' \<notin> set b \<Longrightarrow> Split b '', '' = [b]"
  using splitFrom_skip [of b "[]" "[]"] by (simp add: Split_def)



lemma Split_two:
  "CHR '','' \<notin> set a \<Longrightarrow> CHR '','' \<notin> set b \<Longrightarrow> Split (a @ '', '' @ b) '', '' = [a, b]"
  using splitFrom_skip [of a "[]" "'', '' @ b"] splitFrom_skip [of b "[]" "[]"]
  by (simp add: Split_def)



lemma sint_int64:
  "- (2 ^ 63) \<le> k \<Longrightarrow> k < 2 ^ 63 \<Longrightarrow> sint (word_of_int k :: 64 word) = k"
  by (simp add: sint_sbintrunc' signed_take_bit_int_eq_self)

lemma duration_exact:
  assumes "0 \<le> n" "0 \<le> h" "0 \<le> m" "0 \<le> s"
    and "(n * 86400 + h * 3600 + m * 60 + s) * 1000000000 < 2 ^ 63"
  shows "Add nw (- (word_of_int n * 24 * Hour + word_of_int h * Hour
                   + word_of_int m * Minute + word_of_int s * Second))
         = nw - (n * 86400 + h * 3600 + m * 60 + s) * 1000000000"
proof -
  let ?t = "(n * 86400 + h * 3600 + m * 60 + s) * 1000000000"
  have "word_of_int n * 24 * Hour + word_of_int h * Hour
          + word_of_int m * Minute + word_of_int s * Second = (word_of_int ?t :: 64 word)"
    by (simp add: Hour_def Minute_def Second_def algebra_simps)
  then have "- (word_of_int n * 24 * Hour + word_of_int h * Hour
          + word_of_int m * Minute + word_of_int s * Second) = (word_of_int (- ?t) :: 64 word)"
    by simp
  moreover have "sint (word_of_int (- ?t) :: 64 word) = - ?t"
  proof -
    have "0 \<le> ?t" using assms(1-4) by simp
    with assms(5) have "- (2 ^ 63) \<le> - ?t" "- ?t < 2 ^ 63" by linarith+
    then show ?thesis
      by (rule sint_int64)
  qed
  ultimately show ?thesis by (simp add: Add_def)
qed






lemma isDigits_no_comma: "isDigits ds \<Longrightarrow> CHR '','' \<notin> set ds"
  by (auto simp: isDigits_def list_all_iff dest: digit_props)

lemma formatSince_digits:
  assumes "isDigits dH" "isDigits dM" "isDigits dS" and "0 \<le> n"
    and "(n * 86400 + decVal dH * 3600 + decVal dM * 60 + decVal dS) * 1000000000 < 2 ^ 63"
  shows "formatSince nw tz u n (dH @ '':'' @ dM @ '':'' @ dS) =
           Format tz (nw - (n * 86400 + decVal dH * 3600 + decVal dM * 60 + decVal dS)
                             * 1000000000)"
proof -
  let ?hms = "dH @ '':'' @ dM @ '':'' @ dS"
  have nn: "0 \<le> decVal dH" "0 \<le> decVal dM" "0 \<le> decVal dS"
    using assms(1-3) by (simp_all add: decVal_nonneg)
  with assms(4,5) have b: "decVal dH < 2 ^ 63" "decVal dM < 2 ^ 63" "decVal dS < 2 ^ 63"
    by simp_all
  have hms: "Sscanf ?hms ''%d:%d:%d'' = Some [decVal dH, decVal dM, decVal dS]"
    using assms(1-3) b by (rule Sscanf_hms)
  show ?thesis
    unfolding formatSince_def hms using duration_exact [OF assms(4) nn assms(5), of nw]
    by (simp add: Let_def)
qed

text \<open>
  Claim C7, as the program has it. For an input \<open>H:M:S\<close>, or \<open>N days, H:M:S\<close>, or
  \<open>N day, H:M:S\<close>, where \<open>N\<close>, \<open>H\<close>, \<open>M\<close> and \<open>S\<close> are non-empty strings of
  decimal digits, whose elapsed time in nanoseconds is below \<open>2 ^ 63\<close> (the range of a
  Duration, about 292 years), \<open>formatUptime\<close> returns the instant \<open>now\<close> minus
  N days, H hours, M minutes and S seconds in the format day.month hour:minute.
\<close>

theorem formatUptime_well_formed:
  assumes "isDigits dH" "isDigits dM" "isDigits dS"
    and "(pre = [] \<and> n = 0)
         \<or> (\<exists>dN. isDigits dN \<and> n = decVal dN
                 \<and> (pre = dN @ '' days, '' \<or> pre = dN @ '' day, ''))"
    and "(n * 86400 + decVal dH * 3600 + decVal dM * 60 + decVal dS) * 1000000000 < 2 ^ 63"
  shows "formatUptime nw tz (pre @ dH @ '':'' @ dM @ '':'' @ dS) =
           Format tz (nw - (n * 86400 + decVal dH * 3600 + decVal dM * 60 + decVal dS)
                             * 1000000000)"
proof -
  let ?hms = "dH @ '':'' @ dM @ '':'' @ dS"
  have c2: "CHR '','' \<notin> set ?hms"
    using assms(1-3) by (auto simp: isDigits_no_comma)
  from assms(4) consider (none) "pre = []" "n = 0"
    | (days) dN where "isDigits dN" "n = decVal dN" "pre = dN @ '' days, ''"
    | (day) dN where "isDigits dN" "n = decVal dN" "pre = dN @ '' day, ''"
    by blast
  then show ?thesis
  proof cases
    case none
    have "Split ?hms '', '' = [?hms]"
      by (rule Split_one [OF c2])
    then show ?thesis
      using formatSince_digits [OF assms(1-3) _ assms(5), of nw tz "?hms"] none
      by (simp add: formatUptime_def Let_def)
  next
    case days
    have n0: "0 \<le> n" using days by (simp add: decVal_nonneg)
    have nb: "decVal dN < 2 ^ 63"
      using assms(1-3,5) days(2) n0 decVal_nonneg [of dH] decVal_nonneg [of dM]
        decVal_nonneg [of dS] by simp
    have c1: "CHR '','' \<notin> set (dN @ '' days'')"
      using days(1) by (auto simp: isDigits_no_comma)
    have sp: "Split ((dN @ '' days'') @ '', '' @ ?hms) '', '' = [dN @ '' days'', ?hms]"
      by (rule Split_two [OF c1 c2])
    have "Sscanf (dN @ '' days'') ''%d days'' = Some [decVal dN]"
      using days(1) nb by (rule Sscanf_days)
    then show ?thesis
      using sp formatSince_digits [OF assms(1-3) n0 assms(5), of nw tz] days
      by (simp add: formatUptime_def Let_def)
  next
    case day
    have n0: "0 \<le> n" using day by (simp add: decVal_nonneg)
    have nb: "decVal dN < 2 ^ 63"
      using assms(1-3,5) day(2) n0 decVal_nonneg [of dH] decVal_nonneg [of dM]
        decVal_nonneg [of dS] by simp
    have c1: "CHR '','' \<notin> set (dN @ '' day'')"
      using day(1) by (auto simp: isDigits_no_comma)
    have sp: "Split ((dN @ '' day'') @ '', '' @ ?hms) '', '' = [dN @ '' day'', ?hms]"
      by (rule Split_two [OF c1 c2])
    have "Sscanf (dN @ '' day'') ''%d days'' = None"
      using day(1) nb by (rule Sscanf_day_days)
    moreover have "Sscanf (dN @ '' day'') ''%d day'' = Some [decVal dN]"
      using day(1) nb by (rule Sscanf_day)
    ultimately show ?thesis
      using sp formatSince_digits [OF assms(1-3) n0 assms(5), of nw tz] day
      by (simp add: formatUptime_def Let_def)
  qed
qed

theorem formatUptime_well_formed_witness:
  "isDigits ''3'' \<and> isDigits ''52'' \<and> isDigits ''36'' \<and> isDigits ''0'' \<and> isDigits ''05''
   \<and> decVal ''3'' = 3 \<and> decVal ''52'' = 52 \<and> decVal ''36'' = 36
   \<and> formatUptime 1751391876000000000 utc ''3 days, 3:52:36'' =
       Format utc
         (1751391876000000000 - (3 * 86400 + 3 * 3600 + 52 * 60 + 36) * 1000000000)
   \<and> formatUptime 1751391876000000000 utc ''3 days, 3:52:36'' = ''28.6 13:52''
   \<and> formatUptime 1751391876000000000 utc ''1 day, 0:05:10'' = ''30.6 17:39''
   \<and> formatUptime 1751391876000000000 utc ''0:05:10'' = ''1.7 17:39''"
proof -
  have d: "isDigits ''3''" "isDigits ''52''" "isDigits ''36''" "isDigits ''0''"
    "isDigits ''05''" "isDigits ''10''" "isDigits ''1''"
    by (simp_all add: isDigits_def isDigit_def)
  have v: "decVal ''3'' = 3" "decVal ''52'' = 52" "decVal ''36'' = 36" "decVal ''0'' = 0"
    "decVal ''05'' = 5" "decVal ''10'' = 10" "decVal ''1'' = 1"
    by (simp_all add: decVal_def digitVal_def)
  have p3: "(''3 days, '' = [] \<and> (3::int) = 0)
         \<or> (\<exists>dN. isDigits dN \<and> 3 = decVal dN
                 \<and> (''3 days, '' = dN @ '' days, '' \<or> ''3 days, '' = dN @ '' day, ''))"
    by (rule disjI2, rule exI [of _ "''3''"]) (simp add: d v)
  have p1: "(''1 day, '' = [] \<and> (1::int) = 0)
         \<or> (\<exists>dN. isDigits dN \<and> 1 = decVal dN
                 \<and> (''1 day, '' = dN @ '' days, '' \<or> ''1 day, '' = dN @ '' day, ''))"
    by (rule disjI2, rule exI [of _ "''1''"]) (simp add: d v)
  have p0: "([] = ([]::string) \<and> (0::int) = 0)
         \<or> (\<exists>dN. isDigits dN \<and> 0 = decVal dN
                 \<and> ([] = dN @ '' days, '' \<or> [] = dN @ '' day, ''))"
    by simp
  have b3: "((3::int) * 86400 + decVal ''3'' * 3600 + decVal ''52'' * 60 + decVal ''36'')
              * 1000000000 < 2 ^ 63"
    by (simp add: v)
  have b1: "((1::int) * 86400 + decVal ''0'' * 3600 + decVal ''05'' * 60 + decVal ''10'')
              * 1000000000 < 2 ^ 63"
    by (simp add: v)
  have b0: "((0::int) * 86400 + decVal ''0'' * 3600 + decVal ''05'' * 60 + decVal ''10'')
              * 1000000000 < 2 ^ 63"
    by (simp add: v)
  have e3: "formatUptime 1751391876000000000 utc ''3 days, 3:52:36'' =
       Format utc
         (1751391876000000000 - (3 * 86400 + 3 * 3600 + 52 * 60 + 36) * 1000000000)"
    using formatUptime_well_formed [OF d(1,2,3) p3 b3, of 1751391876000000000 utc]
    by (simp add: v)
  have e1: "formatUptime 1751391876000000000 utc ''1 day, 0:05:10'' =
       Format utc
         (1751391876000000000 - (1 * 86400 + 0 * 3600 + 5 * 60 + 10) * 1000000000)"
    using formatUptime_well_formed [OF d(4,5,6) p1 b1, of 1751391876000000000 utc]
    by (simp add: v)
  have e0: "formatUptime 1751391876000000000 utc ''0:05:10'' =
       Format utc
         (1751391876000000000 - (0 * 86400 + 0 * 3600 + 5 * 60 + 10) * 1000000000)"
    using formatUptime_well_formed [OF d(4,5,6) p0 b0, of 1751391876000000000 utc]
    by (simp add: v)
  have f3: "Format utc
         (1751391876000000000 - (3 * 86400 + 3 * 3600 + 52 * 60 + 36) * 1000000000)
       = ''28.6 13:52''"
    by code_simp
  have f1: "Format utc
         (1751391876000000000 - (1 * 86400 + 0 * 3600 + 5 * 60 + 10) * 1000000000)
       = ''30.6 17:39''"
    by code_simp
  have f0: "Format utc
         (1751391876000000000 - (0 * 86400 + 0 * 3600 + 5 * 60 + 10) * 1000000000)
       = ''1.7 17:39''"
    by code_simp
  show ?thesis
    by (intro conjI d(1-5) v(1-3) e3 trans [OF e3 f3] trans [OF e1 f1] trans [OF e0 f0])
qed

text \<open>
  The claim as stated fails for a long uptime: the duration of 200000 days does not fit
  into 64 bits, the product wraps around to a negative duration, and the result is an
  instant after \<open>now\<close> (21 June, 17:19) instead of \<open>now\<close> minus 200000 days
  (1 December, 17:44).
\<close>

theorem formatUptime_duration_overflow_counterexample:
  "isDigits ''200000'' \<and> decVal ''200000'' = 200000
   \<and> formatUptime 1751391876000000000 utc ''200000 days, 0:00:00'' = ''21.6 17:19''
   \<and> Format utc
        (1751391876000000000 - (200000 * 86400 + 0 * 3600 + 0 * 60 + 0) * 1000000000)
       = ''1.12 17:44''"
  by code_simp

section \<open>The notification message\<close>

lemma sublist_append_notin:
  "a \<notin> set ys \<Longrightarrow> sublist (a # r) (ys @ zs) \<Longrightarrow> sublist (a # r) zs"
  by (induction ys) (auto simp: sublist_Cons_right)

lemma prefix_ReplaceAll:
  "prefix xs (ReplaceAll t (a # r) (n # ns)) \<Longrightarrow> a \<notin> set xs \<Longrightarrow> n \<notin> set xs \<Longrightarrow> prefix xs t"
proof (induction xs arbitrary: t)
  case Nil
  then show ?case by simp
next
  case (Cons x xs)
  note IH = Cons.IH and prems = Cons.prems
  show ?case
  proof (cases t)
    case Nil
    with prems show ?thesis by simp
  next
    case (Cons c cs)
    with prems IH [of cs] show ?thesis
      by (auto split: if_splits)
  qed
qed

lemma ReplaceAll_no_old:
  assumes "a \<notin> set r" "a \<notin> set (n # ns)" "n \<notin> set r"
  shows "\<not> sublist (a # r) (ReplaceAll s (a # r) (n # ns))"
proof (induction "length s" arbitrary: s rule: less_induct)
  case less
  show ?case
  proof (cases s)
    case Nil
    then show ?thesis by simp
  next
    case (Cons c cs)
    show ?thesis
    proof (cases "prefix (a # r) (c # cs)")
      case True
      have "length (drop (length r) cs) < length s"
        using Cons by simp
      from less [OF this] have "\<not> sublist (a # r) (ReplaceAll (drop (length r) cs) (a # r) (n # ns))" .
      with True Cons assms(2) sublist_append_notin [of a "n # ns" r]
      show ?thesis by auto
    next
      case False
      have "\<not> sublist (a # r) (ReplaceAll cs (a # r) (n # ns))"
        using less [of cs] Cons by simp
      moreover have "\<not> prefix (a # r) (c # ReplaceAll cs (a # r) (n # ns))"
      proof
        assume p: "prefix (a # r) (c # ReplaceAll cs (a # r) (n # ns))"
        then have ac: "a = c" and "prefix r (ReplaceAll cs (a # r) (n # ns))" by auto
        with prefix_ReplaceAll [of r cs a r n ns] assms have "prefix r cs" by simp
        with ac False show False by simp
      qed
      moreover have "ReplaceAll s (a # r) (n # ns) = c # ReplaceAll cs (a # r) (n # ns)"
        using False Cons by auto
      ultimately show ?thesis by (simp only: sublist_Cons_right) simp
    qed
  qed
qed

text \<open>
  Claim C10. The message handed to the notification sender is the template in which
  first every occurrence of \<open>!name\<close> is replaced by the name of the server and then,
  in the result, every occurrence of \<open>!status\<close> by the status word. So the message
  never contains \<open>!status\<close>: an occurrence that came in with the name of the server
  is replaced as well.
\<close>

theorem notification_message_two_stage:
  "sendStatusChangeNotification server online template w =
     emit (SendNotifications
             (ReplaceAll (ReplaceAll template ''!name'' (Name server)) ''!status''
                (if online then ''online'' else ''offline''))) w
   \<and> \<not> sublist ''!status'' (renderMessage template (Name server) online)"
  using ReplaceAll_no_old [of "CHR ''!''" "''status''" "CHR ''o''" "''nline''"]
     ReplaceAll_no_old [of "CHR ''!''" "''status''" "CHR ''o''" "''ffline''"]
  by (simp add: sendStatusChangeNotification_def renderMessage_def)

theorem notification_message_two_stage_witness:
  "trace (sendStatusChangeNotification (webServer\<lparr>Name := ''a!statusb''\<rparr>) True
            ''!name is !status'' freshWorld) = [SendNotifications ''aonlineb is online'']
   \<and> \<not> sublist ''!status''
         (renderMessage ''!name is !status'' (Name (webServer\<lparr>Name := ''a!statusb''\<rparr>)) True)"
proof -
  note T = notification_message_two_stage
             [of "webServer\<lparr>Name := ''a!statusb''\<rparr>" True "''!name is !status''" freshWorld]
  have "trace (emit (SendNotifications
             (ReplaceAll (ReplaceAll ''!name is !status'' ''!name''
                            (Name (webServer\<lparr>Name := ''a!statusb''\<rparr>))) ''!status''
                (if True then ''online'' else ''offline''))) freshWorld)
        = [SendNotifications ''aonlineb is online'']"
    by code_simp
  with T show ?thesis by (simp only:) simp
qed

end
